theory Spec2Isabelle
  imports Complex_Main
begin

section \<open>Python values, errors and responses\<close>

text \<open>
  The views of \<^verbatim>\<open>cvat/apps/engine/views.py\<close> are embedded as functions over an explicit
  world: the jobs of the background queues, the files of the file system and the open
  file descriptors of the server process. An exception of the source is the \<open>Inl\<close>
  branch of the result; what the view had already changed when it raised stays changed.
\<close>

type_synonym path = string

text \<open>The values that are stored in a job's \<^verbatim>\<open>meta\<close> dictionary or passed on to a response.
  A float is only ever relayed, never computed with; it is kept as a rational.\<close>

datatype pyval =
    PyNone
  | PyStr string
  | PyInt int
  | PyFloat rat
  | PyTime int

datatype error =
    ValidationError string
  | NotFound string
  | KeyError string
  | TypeError
  | ValueError
  | FileNotFoundError
  | OSError
  | DoesNotExist
  | PyException string

datatype body =
    NoBody
  | Text string
  | Dict "(string \<times> pyval) list"
  | Listing "(string \<times> string) list"

datatype response =
    Response nat body
  | Sendfile path string

subsection \<open>String helpers of the Python runtime\<close>

definition startswith :: "string \<Rightarrow> string \<Rightarrow> bool" where
  "startswith s p = (take (length p) s = p)"

definition lower_char :: "char \<Rightarrow> char" where
  "lower_char c =
     (let n = (of_char c :: nat) in if 65 \<le> n \<and> n \<le> 90 then char_of (n + 32) else c)"

text \<open>\<^verbatim>\<open>str.lower\<close> on the ASCII letters; every other byte is left as it is.\<close>

definition lower :: "string \<Rightarrow> string" where
  "lower s = map lower_char s"

text \<open>\<^verbatim>\<open>str.replace(old, new)\<close>: every non-overlapping occurrence, from the left.\<close>

function replace :: "string \<Rightarrow> string \<Rightarrow> string \<Rightarrow> string" where
  "replace old new s =
     (if old = [] then new @ concat (map (\<lambda>c. c # new) s)
      else if s = [] then []
      else if startswith s old then new @ replace old new (drop (length old) s)
      else hd s # replace old new (tl s))"
  by pat_completeness auto
termination
  by (relation "measure (\<lambda>(old, new, s). length s)") auto

text \<open>\<^verbatim>\<open>str(x)\<close> of an optional string: \<^verbatim>\<open>str(None)\<close> is \<^verbatim>\<open>'None'\<close>.\<close>

definition str_opt :: "string option \<Rightarrow> string" where
  "str_opt x = (case x of None \<Rightarrow> ''None'' | Some s \<Rightarrow> s)"

text \<open>The truth value of an optional string: \<^verbatim>\<open>None\<close> and \<^verbatim>\<open>''\<close> are false.\<close>

definition truthy :: "string option \<Rightarrow> bool" where
  "truthy x = (case x of None \<Rightarrow> False | Some s \<Rightarrow> s \<noteq> [])"

section \<open>The background job queue\<close>

text \<open>The states of a job of the queue library. The views test \<^verbatim>\<open>is_finished\<close>,
  \<^verbatim>\<open>is_queued\<close> and \<^verbatim>\<open>is_failed\<close>; every other state takes the last branch.\<close>

datatype job_status =
    JobQueued | JobStarted | JobFinished | JobFailed
  | JobDeferred | JobScheduled | JobStopped | JobCanceled

record rq_job =
  job_func :: string
  job_args :: "pyval list"
  job_status :: job_status
  job_meta :: "string \<rightharpoonup> pyval"
  exc_info :: "string option"
  return_value :: "string option"
  result_ttl :: "rat option"
  failure_ttl :: "rat option"

definition is_finished :: "rq_job \<Rightarrow> bool" where
  "is_finished j = (job_status j = JobFinished)"

definition is_queued :: "rq_job \<Rightarrow> bool" where
  "is_queued j = (job_status j = JobQueued)"

definition is_failed :: "rq_job \<Rightarrow> bool" where
  "is_failed j = (job_status j = JobFailed)"

record world =
  queues :: "string \<Rightarrow> string \<rightharpoonup> rq_job"
  files :: "path \<rightharpoonup> string"
  open_fds :: "int set"

type_synonym result = "(error + response) \<times> world"

text \<open>\<^verbatim>\<open>django_rq.get_queue(name).fetch_job(job_id)\<close>\<close>

definition fetch_job :: "world \<Rightarrow> string \<Rightarrow> string \<Rightarrow> rq_job option" where
  "fetch_job w qname job_id = queues w qname job_id"

text \<open>\<^verbatim>\<open>rq_job.delete()\<close>, and \<^verbatim>\<open>rq_job.cancel()\<close> followed by it: the job is gone.\<close>

definition delete_job :: "world \<Rightarrow> string \<Rightarrow> string \<Rightarrow> world" where
  "delete_job w qname job_id = w\<lparr>queues := (queues w)(qname := (queues w qname)(job_id := None))\<rparr>"

text \<open>\<^verbatim>\<open>queue.enqueue_call(func, args, job_id, meta, result_ttl, failure_ttl)\<close>: a queued
  job is stored under the id, in place of whatever was there.\<close>

definition new_job ::
  "string \<Rightarrow> pyval list \<Rightarrow> (string \<rightharpoonup> pyval) \<Rightarrow> rat option \<Rightarrow> rat option \<Rightarrow> rq_job" where
  "new_job func args meta rttl fttl =
     \<lparr>job_func = func, job_args = args, job_status = JobQueued, job_meta = meta,
      exc_info = None, return_value = None, result_ttl = rttl, failure_ttl = fttl\<rparr>"

definition enqueue_call :: "world \<Rightarrow> string \<Rightarrow> string \<Rightarrow> rq_job \<Rightarrow> world" where
  "enqueue_call w qname job_id j =
     w\<lparr>queues := (queues w)(qname := (queues w qname)(job_id \<mapsto> j))\<rparr>"

subsection \<open>Polling a job: \<^verbatim>\<open>_get_rq_response\<close>\<close>

text \<open>\<^verbatim>\<open>dict.get(key, default)\<close>\<close>

definition dict_get :: "(string \<rightharpoonup> pyval) \<Rightarrow> string \<Rightarrow> pyval \<Rightarrow> pyval" where
  "dict_get m k d = (case m k of None \<Rightarrow> d | Some v \<Rightarrow> v)"

definition exc_val :: "rq_job \<Rightarrow> pyval" where
  "exc_val j = (case exc_info j of None \<Rightarrow> PyNone | Some s \<Rightarrow> PyStr s)"

text \<open>\<^verbatim>\<open>ProjectViewSet._get_rq_response\<close>. The world is returned as it was received.\<close>

definition project_get_rq_response ::
  "world \<Rightarrow> string \<Rightarrow> string \<Rightarrow> (string \<times> pyval) list \<times> world" where
  "project_get_rq_response w queue job_id =
     (case fetch_job w queue job_id of
        None \<Rightarrow> ([(''state'', PyStr ''Finished'')], w)
      | Some job \<Rightarrow>
          if is_finished job then ([(''state'', PyStr ''Finished'')], w)
          else if is_queued job then ([(''state'', PyStr ''Queued'')], w)
          else if is_failed job then
            ([(''state'', PyStr ''Failed''), (''message'', exc_val job)], w)
          else
            ([(''state'', PyStr ''Started''),
              (''message'', dict_get (job_meta job) ''status'' (PyStr '''')),
              (''progress'', dict_get (job_meta job) ''progress'' (PyFloat 0))], w))"

text \<open>\<^verbatim>\<open>TaskViewSet._get_rq_response\<close>: the message is present only when the metadata has
  a \<^verbatim>\<open>status\<close>, and the progress is read from \<^verbatim>\<open>task_progress\<close>.\<close>

definition task_get_rq_response ::
  "world \<Rightarrow> string \<Rightarrow> string \<Rightarrow> (string \<times> pyval) list \<times> world" where
  "task_get_rq_response w queue job_id =
     (case fetch_job w queue job_id of
        None \<Rightarrow> ([(''state'', PyStr ''Finished'')], w)
      | Some job \<Rightarrow>
          if is_finished job then ([(''state'', PyStr ''Finished'')], w)
          else if is_queued job then ([(''state'', PyStr ''Queued'')], w)
          else if is_failed job then
            ([(''state'', PyStr ''Failed''), (''message'', exc_val job)], w)
          else
            ([(''state'', PyStr ''Started'')]
               @ (case job_meta job ''status'' of
                    None \<Rightarrow> []
                  | Some v \<Rightarrow> [(''message'', v)])
               @ [(''progress'', dict_get (job_meta job) ''task_progress'' (PyFloat 0))], w))"

declare replace.simps [simp del]

section \<open>Requests, settings and the database rows the views read\<close>

record request =
  req_method :: string
  query_params :: "string \<rightharpoonup> string"
  req_user :: string
  req_scheme :: string
  req_host :: "string option"
  req_file :: "string option"

text \<open>\<^verbatim>\<open>req_host\<close> is \<^verbatim>\<open>None\<close> when \<^verbatim>\<open>request.get_host()\<close> raises; \<^verbatim>\<open>req_file\<close> is the
  content of the uploaded file when the file serializer accepts the request data, and
  \<^verbatim>\<open>None\<close> when \<^verbatim>\<open>is_valid(raise_exception=True)\<close> raises.\<close>

definition query_get :: "request \<Rightarrow> string \<Rightarrow> string \<Rightarrow> string" where
  "query_get r k d = (case query_params r k of None \<Rightarrow> d | Some v \<Rightarrow> v)"

record format =
  DISPLAY_NAME :: string
  ENABLED :: bool

text \<open>What the views import from the dataset manager and the utilities: the registered
  formats, the cache lifetimes in seconds, the qualified name of the import error class,
  the antivirus scan (its message when it rejects a path) and the formatting of a time
  with \<^verbatim>\<open>"%Y_%m_%d_%H_%M_%S"\<close>.\<close>

record settings =
  export_formats :: "format list"
  import_formats :: "format list"
  project_cache_ttl :: rat
  task_cache_ttl :: rat
  import_error_prefix :: string
  av_scan_paths :: "path \<Rightarrow> string option"
  strftime :: "int \<Rightarrow> string"

text \<open>\<^verbatim>\<open>{f.DISPLAY_NAME: f for f in formats}.get(format_name)\<close>: a later format of the same
  name replaces an earlier one.\<close>

definition format_lookup :: "format list \<Rightarrow> string \<Rightarrow> format option" where
  "format_lookup fs format_name = fold (\<lambda>f m. m(DISPLAY_NAME f \<mapsto> f)) fs Map.empty format_name"

record db_task =
  task_id :: int
  task_name :: string
  task_updated_date :: int
  task_data :: "int option"
  task_project :: "int option"

record db_project =
  project_id :: int
  project_name :: string
  project_updated_date :: int
  project_tasks :: "db_task list"

datatype db_instance = ProjectInstance db_project | TaskInstance db_task

definition is_project :: "db_instance \<Rightarrow> bool" where
  "is_project i = (case i of ProjectInstance _ \<Rightarrow> True | TaskInstance _ \<Rightarrow> False)"

definition instance_id :: "db_instance \<Rightarrow> int" where
  "instance_id i = (case i of ProjectInstance p \<Rightarrow> project_id p | TaskInstance t \<Rightarrow> task_id t)"

definition instance_name :: "db_instance \<Rightarrow> string" where
  "instance_name i = (case i of ProjectInstance p \<Rightarrow> project_name p | TaskInstance t \<Rightarrow> task_name t)"

text \<open>The last update of the exported resource, as \<^verbatim>\<open>_export_annotations\<close> computes it:
  \<^verbatim>\<open>max(tasks_update + [last_instance_update_time])\<close> for a project.\<close>

definition last_instance_update_time :: "db_instance \<Rightarrow> int" where
  "last_instance_update_time i =
     (case i of
        TaskInstance t \<Rightarrow> task_updated_date t
      | ProjectInstance p \<Rightarrow>
          fold max (map task_updated_date (project_tasks p)) (project_updated_date p))"

section \<open>Temporary files of import jobs\<close>

definition os_close :: "world \<Rightarrow> pyval \<Rightarrow> error + world" where
  "os_close w v =
     (case v of
        PyInt fd \<Rightarrow>
          if fd \<in> open_fds w then Inr (w\<lparr>open_fds := open_fds w - {fd}\<rparr>) else Inl OSError
      | _ \<Rightarrow> Inl TypeError)"

definition os_remove :: "world \<Rightarrow> pyval \<Rightarrow> error + world" where
  "os_remove w v =
     (case v of
        PyStr p \<Rightarrow>
          if p \<in> dom (files w) then Inr (w\<lparr>files := (files w)(p := None)\<rparr>)
          else Inl FileNotFoundError
      | _ \<Rightarrow> Inl TypeError)"

text \<open>The two statements
  \<^verbatim>\<open>os.close(rq_job.meta['tmp_file_descriptor']); os.remove(rq_job.meta['tmp_file'])\<close>
  with the exception that stops them, if any, and the world they leave.\<close>

definition cleanup_tmp :: "world \<Rightarrow> rq_job \<Rightarrow> error option \<times> world" where
  "cleanup_tmp w j =
     (case job_meta j ''tmp_file_descriptor'' of
        None \<Rightarrow> (Some (KeyError ''tmp_file_descriptor''), w)
      | Some fdv \<Rightarrow>
          (case os_close w fdv of
             Inl e \<Rightarrow> (Some e, w)
           | Inr w1 \<Rightarrow>
               (case job_meta j ''tmp_file'' of
                  None \<Rightarrow> (Some (KeyError ''tmp_file''), w1)
                | Some fv \<Rightarrow>
                    (case os_remove w1 fv of
                       Inl e \<Rightarrow> (Some e, w1)
                     | Inr w2 \<Rightarrow> (None, w2)))))"

text \<open>\<^verbatim>\<open>mkstemp\<close> followed by writing the uploaded chunks: the environment supplies the new
  descriptor and file name.\<close>

definition write_tmp :: "world \<Rightarrow> int \<times> path \<Rightarrow> string \<Rightarrow> world" where
  "write_tmp w tmp content =
     w\<lparr>files := (files w)(snd tmp \<mapsto> content), open_fds := insert (fst tmp) (open_fds w)\<rparr>"

definition quote :: "string \<Rightarrow> string" where
  "quote s = [CHR 0x27] @ s @ [CHR 0x27]"

section \<open>Importing annotations: \<^verbatim>\<open>_import_annotations\<close>\<close>

definition import_annotations ::
  "settings \<Rightarrow> world \<Rightarrow> request \<Rightarrow> int \<times> path \<Rightarrow> string \<Rightarrow> string \<Rightarrow> string \<Rightarrow> string \<Rightarrow> result" where
  "import_annotations E w request tmp rq_id rq_func pk format_name =
     (case format_lookup (import_formats E) format_name of
        None \<Rightarrow> (Inl (ValidationError (''Unknown input format '' @ quote format_name)), w)
      | Some format_desc \<Rightarrow>
          if \<not> ENABLED format_desc then (Inr (Response 405 NoBody), w)
          else
            (case fetch_job w ''default'' rq_id of
               None \<Rightarrow>
                 (case req_file request of
                    None \<Rightarrow> (Inl (ValidationError ''annotation_file''), w)
                  | Some anno_file \<Rightarrow>
                      let w1 = write_tmp w tmp anno_file in
                      (case av_scan_paths E (snd tmp) of
                         Some msg \<Rightarrow> (Inl (ValidationError msg), w1)
                       | None \<Rightarrow>
                           (Inr (Response 202 NoBody),
                            enqueue_call w1 ''default'' rq_id
                              (new_job rq_func [PyStr pk, PyStr (snd tmp), PyStr format_name]
                                 [''tmp_file'' \<mapsto> PyStr (snd tmp),
                                  ''tmp_file_descriptor'' \<mapsto> PyInt (fst tmp)]
                                 None None))))
             | Some rq_job \<Rightarrow>
                 if is_finished rq_job then
                   (case cleanup_tmp w rq_job of
                      (Some e, w1) \<Rightarrow> (Inl e, w1)
                    | (None, w1) \<Rightarrow>
                        (Inr (Response 201 NoBody), delete_job w1 ''default'' rq_id))
                 else if is_failed rq_job then
                   (case cleanup_tmp w rq_job of
                      (Some e, w1) \<Rightarrow> (Inl e, w1)
                    | (None, w1) \<Rightarrow>
                        let exc = str_opt (exc_info rq_job);
                            w2 = delete_job w1 ''default'' rq_id in
                        if startswith exc (import_error_prefix E) then
                          (Inr (Response 400
                                  (Text (replace (import_error_prefix E @ '': '') [] exc))), w2)
                        else (Inr (Response 500 (Text exc)), w2))
                 else (Inr (Response 202 NoBody), w)))"

section \<open>Exporting annotations: \<^verbatim>\<open>_export_annotations\<close>\<close>

text \<open>\<^verbatim>\<open>request.scheme + '://' + request.get_host()\<close>, or \<^verbatim>\<open>None\<close> when the scheme is
  empty or the host cannot be read.\<close>

definition server_address :: "request \<Rightarrow> pyval" where
  "server_address r =
     (if req_scheme r = [] then PyNone
      else (case req_host r of
              None \<Rightarrow> PyNone
            | Some h \<Rightarrow> PyStr (req_scheme r @ ''://'' @ h)))"

text \<open>\<^verbatim>\<open>request_time is None or request_time < last_instance_update_time\<close>; comparing
  anything but a time with a time raises.\<close>

definition request_is_stale :: "pyval \<Rightarrow> int \<Rightarrow> error + bool" where
  "request_is_stale request_time last_update =
     (case request_time of
        PyNone \<Rightarrow> Inr True
      | PyTime t \<Rightarrow> Inr (t < last_update)
      | _ \<Rightarrow> Inl TypeError)"

definition rfind :: "string \<Rightarrow> char \<Rightarrow> int" where
  "rfind s c =
     (if c \<in> set s then int (length s) - 1 - int (length (takeWhile (\<lambda>x. x \<noteq> c) (rev s)))
      else - 1)"

text \<open>The extension that \<^verbatim>\<open>osp.splitext(p)[1]\<close> returns.\<close>

definition splitext_ext :: "path \<Rightarrow> string" where
  "splitext_ext p =
     (let sepIndex = rfind p (CHR ''/''); dotIndex = rfind p (CHR ''.'') in
      if dotIndex > sepIndex
         \<and> list_ex (\<lambda>k. p ! k \<noteq> CHR ''.'') [nat (sepIndex + 1) ..< nat dotIndex]
      then drop (nat dotIndex) p else [])"

definition export_filename ::
  "settings \<Rightarrow> db_instance \<Rightarrow> int \<Rightarrow> string \<Rightarrow> path \<Rightarrow> string \<Rightarrow> string" where
  "export_filename E db_instance last_update format_name file_path filename =
     (if filename \<noteq> [] then filename
      else (if is_project db_instance then ''project'' else ''task'') @ ''_''
           @ instance_name db_instance @ ''-'' @ strftime E last_update @ ''-'' @ format_name
           @ splitext_ext file_path)"

definition osp_exists :: "world \<Rightarrow> path \<Rightarrow> bool" where
  "osp_exists w p = (p \<in> dom (files w))"

text \<open>The tail of \<^verbatim>\<open>_export_annotations\<close>: a new job under \<^verbatim>\<open>rq_id\<close>, stamped with the
  current time, kept for the cache lifetime of the resource's kind.\<close>

definition enqueue_export ::
  "settings \<Rightarrow> world \<Rightarrow> int \<Rightarrow> db_instance \<Rightarrow> string \<Rightarrow> request \<Rightarrow> string \<Rightarrow> string \<Rightarrow> result" where
  "enqueue_export E w now db_instance rq_id request format_name callback =
     (let ttl = (if is_project db_instance then project_cache_ttl E else task_cache_ttl E) in
      (Inr (Response 202 NoBody),
       enqueue_call w ''default'' rq_id
         (new_job callback
            [PyInt (instance_id db_instance), PyStr format_name, server_address request]
            [''request_time'' \<mapsto> PyTime now] (Some ttl) (Some ttl))))"

definition export_annotations ::
  "settings \<Rightarrow> world \<Rightarrow> int \<Rightarrow> db_instance \<Rightarrow> string \<Rightarrow> request \<Rightarrow> string \<Rightarrow> string \<Rightarrow> string
     \<Rightarrow> string \<Rightarrow> result" where
  "export_annotations E w now db_instance rq_id request format_name action callback filename =
     (if action \<noteq> [] \<and> action \<noteq> ''download'' then
        (Inl (ValidationError ''Unexpected action specified for the request''), w)
      else
        (case format_lookup (export_formats E) format_name of
           None \<Rightarrow> (Inl (ValidationError ''Unknown format specified for the request''), w)
         | Some format_desc \<Rightarrow>
             if \<not> ENABLED format_desc then (Inr (Response 405 NoBody), w)
             else
               (case fetch_job w ''default'' rq_id of
                  None \<Rightarrow> enqueue_export E w now db_instance rq_id request format_name callback
                | Some rq_job \<Rightarrow>
                    let last_update = last_instance_update_time db_instance in
                    (case request_is_stale (dict_get (job_meta rq_job) ''request_time'' PyNone) last_update of
                       Inl e \<Rightarrow> (Inl e, w)
                     | Inr True \<Rightarrow>
                         enqueue_export E (delete_job w ''default'' rq_id) now db_instance rq_id
                           request format_name callback
                     | Inr False \<Rightarrow>
                         if is_finished rq_job then
                           (case return_value rq_job of
                              None \<Rightarrow> (Inl TypeError, w)
                            | Some file_path \<Rightarrow>
                                if action = ''download'' \<and> osp_exists w file_path then
                                  (Inr (Sendfile file_path
                                          (lower (export_filename E db_instance last_update format_name
                                                    file_path filename))),
                                   delete_job w ''default'' rq_id)
                                else if osp_exists w file_path then
                                  (Inr (Response 201 NoBody), w)
                                else
                                  enqueue_export E w now db_instance rq_id request format_name
                                    callback)
                         else if is_failed rq_job then
                           (Inr (Response 500 (Text (str_opt (exc_info rq_job)))),
                            delete_job w ''default'' rq_id)
                         else (Inr (Response 202 NoBody), w)))))"

section \<open>Importing a project dataset: \<^verbatim>\<open>_import_project_dataset\<close>\<close>

definition import_project_dataset ::
  "settings \<Rightarrow> world \<Rightarrow> request \<Rightarrow> int \<times> path \<Rightarrow> string \<Rightarrow> string \<Rightarrow> string \<Rightarrow> string \<Rightarrow> result" where
  "import_project_dataset E w request tmp rq_id rq_func pk format_name =
     (case format_lookup (import_formats E) format_name of
        None \<Rightarrow> (Inl (ValidationError (''Unknown input format '' @ quote format_name)), w)
      | Some format_desc \<Rightarrow>
          if \<not> ENABLED format_desc then (Inr (Response 405 NoBody), w)
          else
            (case fetch_job w ''default'' rq_id of
               None \<Rightarrow>
                 (case req_file request of
                    None \<Rightarrow> (Inl (ValidationError ''dataset_file''), w)
                  | Some dataset_file \<Rightarrow>
                      (Inr (Response 202 NoBody),
                       enqueue_call (write_tmp w tmp dataset_file) ''default'' rq_id
                         (new_job rq_func [PyStr pk, PyStr (snd tmp), PyStr format_name]
                            [''tmp_file'' \<mapsto> PyStr (snd tmp),
                             ''tmp_file_descriptor'' \<mapsto> PyInt (fst tmp)]
                            None None)))
             | Some rq_job \<Rightarrow>
                 (Inr (Response 409 (Text ''Import job already exists'')), w)))"

section \<open>The job identifiers the views build\<close>

text \<open>\<^verbatim>\<open>ProjectViewSet.dataset\<close>, POST and \<^verbatim>\<open>action=import_status\<close>\<close>

definition project_dataset_import_rq_id :: "string \<Rightarrow> string" where
  "project_dataset_import_rq_id pk = ''/api/project/'' @ pk @ ''/dataset_import''"

text \<open>\<^verbatim>\<open>ProjectViewSet.dataset\<close>, GET\<close>

definition project_dataset_export_rq_id :: "string \<Rightarrow> string \<Rightarrow> string" where
  "project_dataset_export_rq_id pk format_name =
     ''/api/project/'' @ pk @ ''/dataset/'' @ format_name"

text \<open>\<^verbatim>\<open>ProjectViewSet.annotations\<close>\<close>

definition project_annotations_rq_id :: "string \<Rightarrow> string \<Rightarrow> string" where
  "project_annotations_rq_id pk format_name =
     ''/api/projects/'' @ pk @ ''/annotations/'' @ format_name"

text \<open>\<^verbatim>\<open>TaskViewSet.annotations\<close>, GET with a format\<close>

definition task_annotations_export_rq_id :: "string \<Rightarrow> string \<Rightarrow> string" where
  "task_annotations_export_rq_id pk format_name =
     ''/api/tasks/'' @ pk @ ''/annotations/'' @ format_name"

text \<open>\<^verbatim>\<open>TaskViewSet.annotations\<close>, PUT with a format: the id starts with the user's name.\<close>

definition task_annotations_upload_rq_id :: "string \<Rightarrow> string \<Rightarrow> string" where
  "task_annotations_upload_rq_id user pk =
     user @ ''@/api/tasks/'' @ pk @ ''/annotations/upload''"

text \<open>\<^verbatim>\<open>TaskViewSet.status\<close>\<close>

definition task_status_rq_id :: "string \<Rightarrow> string" where
  "task_status_rq_id pk = ''/api/tasks/'' @ pk"

text \<open>\<^verbatim>\<open>TaskViewSet.dataset_export\<close>\<close>

definition task_dataset_export_rq_id :: "string \<Rightarrow> string \<Rightarrow> string" where
  "task_dataset_export_rq_id pk format_name =
     ''/api/tasks/'' @ pk @ ''/dataset/'' @ format_name"

text \<open>\<^verbatim>\<open>JobViewSet.annotations\<close>, PUT with a format\<close>

definition job_annotations_upload_rq_id :: "string \<Rightarrow> string \<Rightarrow> string" where
  "job_annotations_upload_rq_id user pk =
     user @ ''@/api/jobs/'' @ pk @ ''/annotations/upload''"

text \<open>A string of the form \<^verbatim>\<open>/api/<resource>/<id>/<operation>\<close>: the resource and the id are
  non-empty and hold no slash, the operation is what follows and is non-empty.\<close>

definition segment :: "string \<Rightarrow> string" where
  "segment s = takeWhile (\<lambda>c. c \<noteq> CHR ''/'') s"

definition after_segment :: "string \<Rightarrow> string option" where
  "after_segment s =
     (case dropWhile (\<lambda>c. c \<noteq> CHR ''/'') s of [] \<Rightarrow> None | _ # r \<Rightarrow> Some r)"

definition is_api_job_id :: "string \<Rightarrow> bool" where
  "is_api_job_id s =
     (startswith s ''/api/'' \<and>
      (let r1 = drop 5 s in
       segment r1 \<noteq> [] \<and>
       (case after_segment r1 of
          None \<Rightarrow> False
        | Some r2 \<Rightarrow>
            segment r2 \<noteq> [] \<and>
            (case after_segment r2 of None \<Rightarrow> False | Some operation \<Rightarrow> operation \<noteq> []))))"

section \<open>The project dataset endpoint: \<^verbatim>\<open>ProjectViewSet.dataset\<close>\<close>

text \<open>The project has been fetched and the permissions checked (\<^verbatim>\<open>self.get_object()\<close>)
  before the body below runs; the route accepts GET and POST only.\<close>

definition project_dataset ::
  "settings \<Rightarrow> world \<Rightarrow> int \<Rightarrow> request \<Rightarrow> int \<times> path \<Rightarrow> db_project \<Rightarrow> string \<Rightarrow> result" where
  "project_dataset E w now request tmp db_proj pk =
     (if req_method request = ''POST'' then
        import_project_dataset E w request tmp (project_dataset_import_rq_id pk)
          ''import_dataset_as_project'' pk (query_get request ''format'' [])
      else
        let action = lower (query_get request ''action'' []) in
        if action = ''import_status'' then
          (case fetch_job w ''default'' (project_dataset_import_rq_id pk) of
             None \<Rightarrow> (Inr (Response 404 NoBody), w)
           | Some rq_job \<Rightarrow>
               if is_finished rq_job then
                 (case cleanup_tmp w rq_job of
                    (Some e, w1) \<Rightarrow> (Inl e, w1)
                  | (None, w1) \<Rightarrow>
                      (Inr (Response 201 NoBody),
                       delete_job w1 ''default'' (project_dataset_import_rq_id pk)))
               else if is_failed rq_job then
                 (case cleanup_tmp w rq_job of
                    (Some e, w1) \<Rightarrow> (Inl e, w1)
                  | (None, w1) \<Rightarrow>
                      (Inr (Response 500 (Text (str_opt (exc_info rq_job)))),
                       delete_job w1 ''default'' (project_dataset_import_rq_id pk)))
               else
                 (case project_get_rq_response w ''default'' (project_dataset_import_rq_id pk) of
                    (data, w1) \<Rightarrow> (Inr (Response 202 (Dict data)), w1)))
        else
          let format_name = query_get request ''format'' [] in
          export_annotations E w now (ProjectInstance db_proj)
            (project_dataset_export_rq_id pk format_name) request format_name action
            ''export_project_as_dataset'' (lower (query_get request ''filename'' [])))"

section \<open>Destroying a task: \<^verbatim>\<open>TaskViewSet.perform_destroy\<close>\<close>

text \<open>The tables the method touches and the directory tree. A directory is a path; removing
  a tree removes the path and every path below it, and never raises
  (\<^verbatim>\<open>ignore_errors=True\<close>).\<close>

record database =
  task_rows :: "db_task list"
  data_rows :: "int set"
  project_rows :: "int \<rightharpoonup> int"
  dirs :: "path set"

definition below :: "path \<Rightarrow> path \<Rightarrow> bool" where
  "below q p = (q = p \<or> startswith q (p @ ''/''))"

definition rmtree :: "path set \<Rightarrow> path \<Rightarrow> path set" where
  "rmtree ds p = {q \<in> ds. \<not> below q p}"

text \<open>\<^verbatim>\<open>instance.data.tasks.all()\<close>\<close>

definition data_tasks :: "database \<Rightarrow> int \<Rightarrow> db_task list" where
  "data_tasks db d = filter (\<lambda>t. task_data t = Some d) (task_rows db)"

text \<open>\<^verbatim>\<open>get_task_dirname\<close> and \<^verbatim>\<open>get_data_dirname\<close> are methods of the models: they are
  taken as the functions \<open>task_dirname\<close> and \<open>data_dirname\<close> of the row's id. Saving the
  project stamps its \<^verbatim>\<open>updated_date\<close>.\<close>

definition perform_destroy ::
  "(int \<Rightarrow> path) \<Rightarrow> (int \<Rightarrow> path) \<Rightarrow> int \<Rightarrow> database \<Rightarrow> db_task \<Rightarrow> database" where
  "perform_destroy task_dirname data_dirname now db instance =
     (let task_dir = task_dirname (task_id instance);
          db1 = db\<lparr>task_rows := filter (\<lambda>t. task_id t \<noteq> task_id instance) (task_rows db)\<rparr>;
          db2 = db1\<lparr>dirs := rmtree (dirs db1) task_dir\<rparr>;
          db3 = (case task_data instance of
                   None \<Rightarrow> db2
                 | Some d \<Rightarrow>
                     if data_tasks db2 d = [] then
                       db2\<lparr>dirs := rmtree (dirs db2) (data_dirname d),
                           data_rows := data_rows db2 - {d}\<rparr>
                     else db2)
      in (case task_project instance of
            None \<Rightarrow> db3
          | Some p \<Rightarrow> db3\<lparr>project_rows := (project_rows db3)(p \<mapsto> now)\<rparr>))"

section \<open>Browsing the share: \<^verbatim>\<open>ServerViewSet.share\<close>\<close>

subsection \<open>\<^verbatim>\<open>os.path\<close> on POSIX\<close>

definition endswith :: "string \<Rightarrow> string \<Rightarrow> bool" where
  "endswith s p = (length p \<le> length s \<and> drop (length s - length p) s = p)"

text \<open>\<^verbatim>\<open>os.path.join(a, b)\<close>: an absolute second part replaces the first.\<close>

definition path_join :: "path \<Rightarrow> path \<Rightarrow> path" where
  "path_join a b =
     (if startswith b ''/'' then b
      else if a = [] \<or> endswith a ''/'' then a @ b
      else a @ ''/'' @ b)"

text \<open>\<^verbatim>\<open>s.split(c)\<close> and \<^verbatim>\<open>c.join(parts)\<close>\<close>

fun split_on :: "char \<Rightarrow> string \<Rightarrow> string list" where
  "split_on c [] = [] # []"
| "split_on c (x # xs) =
     (if x = c then [] # split_on c xs
      else (case split_on c xs of
              [] \<Rightarrow> [x] # []
            | y # ys \<Rightarrow> (x # y) # ys))"

fun join_with :: "string \<Rightarrow> string list \<Rightarrow> string" where
  "join_with sep [] = []"
| "join_with sep [x] = x"
| "join_with sep (x # y # ys) = x @ sep @ join_with sep (y # ys)"

text \<open>The loop of \<^verbatim>\<open>os.path.normpath\<close> over the components, with the components kept so
  far; \<open>rooted\<close> says that the path starts with a slash.\<close>

fun norm_comps :: "bool \<Rightarrow> string list \<Rightarrow> string list \<Rightarrow> string list" where
  "norm_comps rooted [] new_comps = new_comps"
| "norm_comps rooted (part # parts) new_comps =
     (if part = [] \<or> part = ''.'' then norm_comps rooted parts new_comps
      else if part \<noteq> ''..'' \<or> (\<not> rooted \<and> new_comps = [])
              \<or> (new_comps \<noteq> [] \<and> last new_comps = ''..'')
      then norm_comps rooted parts (new_comps @ [part])
      else if new_comps \<noteq> [] then norm_comps rooted parts (butlast new_comps)
      else norm_comps rooted parts new_comps)"

definition normpath :: "path \<Rightarrow> path" where
  "normpath p =
     (if p = [] then ''.''
      else
        let initial_slashes =
              (if startswith p ''/'' then
                 (if startswith p ''//'' \<and> \<not> startswith p ''///'' then 2 else 1)
               else (0::nat));
            parts = norm_comps (initial_slashes \<noteq> 0) (split_on (CHR ''/'') p) [];
            joined = replicate initial_slashes (CHR ''/'') @ join_with ''/'' parts
        in if joined = [] then ''.'' else joined)"

text \<open>\<^verbatim>\<open>os.path.abspath\<close>, with the working directory of the process.\<close>

definition abspath :: "path \<Rightarrow> path \<Rightarrow> path" where
  "abspath cwd p = normpath (if startswith p ''/'' then p else path_join cwd p)"

subsection \<open>The endpoint\<close>

datatype entry_kind = RegularFile | Directory | OtherEntry

text \<open>The directories of the file system, each with its entries in the order
  \<^verbatim>\<open>os.scandir\<close> yields them.\<close>

type_synonym tree = "path \<rightharpoonup> (string \<times> entry_kind) list"

definition isdir :: "tree \<Rightarrow> path \<Rightarrow> bool" where
  "isdir fs d = (d \<in> dom fs)"

definition scandir :: "tree \<Rightarrow> path \<Rightarrow> (string \<times> entry_kind) list" where
  "scandir fs d = (case fs d of None \<Rightarrow> [] | Some entries \<Rightarrow> entries)"

definition file_info :: "string \<times> entry_kind \<Rightarrow> (string \<times> string) option" where
  "file_info entry =
     (case snd entry of
        RegularFile \<Rightarrow> Some (fst entry, ''REG'')
      | Directory \<Rightarrow> Some (fst entry, ''DIR'')
      | OtherEntry \<Rightarrow> None)"

text \<open>\<open>SHARE_ROOT\<close> is the setting, \<open>serializer_valid\<close> the verdict of
  \<^verbatim>\<open>FileInfoSerializer\<close> on the collected entries, \<open>directory\<close> the query parameter.\<close>

definition share ::
  "path \<Rightarrow> path \<Rightarrow> tree \<Rightarrow> ((string \<times> string) list \<Rightarrow> bool) \<Rightarrow> string option
     \<Rightarrow> error + response" where
  "share SHARE_ROOT cwd fs serializer_valid directory =
     (let param0 = (case directory of None \<Rightarrow> ''/'' | Some v \<Rightarrow> v);
          param = (if startswith param0 ''/'' then drop 1 param0 else param0);
          dir = abspath cwd (path_join SHARE_ROOT param)
      in if startswith dir SHARE_ROOT \<and> isdir fs dir then
           (let data = List.map_filter file_info (scandir fs dir) in
            if serializer_valid data then Inr (Response 200 (Listing data))
            else Inl (ValidationError ''FileInfoSerializer''))
         else Inr (Response 400 (Text (param @ '' is an invalid directory''))))"

text \<open>A path lies under the root when it is the root or continues it after a slash.\<close>

definition under_root :: "path \<Rightarrow> path \<Rightarrow> bool" where
  "under_root share_root d = below d share_root"

section \<open>Serving frames and chunks: \<^verbatim>\<open>DataChunkGetter\<close>\<close>

datatype quality = COMPRESSED | ORIGINAL

datatype storage_method = CACHE | FILE_SYSTEM

record db_data =
  data_id :: int
  data_storage_method :: storage_method

record data_chunk_getter =
  getter_type :: string
  getter_number :: "int option"
  getter_quality :: quality
  getter_dimension :: string

text \<open>What lies outside the class: \<^verbatim>\<open>int(...)\<close> of the query parameter (\<^verbatim>\<open>None\<close> when it
  raises \<^verbatim>\<open>ValueError\<close>), the chunk number of a frame as the frame provider computes it,
  the \<^verbatim>\<open>USE_CACHE\<close> setting, the related files of the image of a frame (\<^verbatim>\<open>None\<close> when the
  image row does not exist) and whether encoding a file as JPEG succeeds.\<close>

record frame_env =
  to_int :: "string \<Rightarrow> int option"
  get_chunk_number :: "int \<Rightarrow> int"
  USE_CACHE :: bool
  related_files :: "int \<Rightarrow> int \<Rightarrow> path list option"
  imencode_ok :: "path \<Rightarrow> bool"

datatype data_response =
    ChunkBuffer int quality
  | ChunkFile int quality
  | FrameBuffer int quality
  | PreviewFile
  | ContextImage path
  | PlainResponse nat string

text \<open>\<^verbatim>\<open>DataChunkGetter.__init__\<close>\<close>

definition data_chunk_getter_init ::
  "frame_env \<Rightarrow> string option \<Rightarrow> string option \<Rightarrow> string \<Rightarrow> string
     \<Rightarrow> error + data_chunk_getter" where
  "data_chunk_getter_init F data_type data_num data_quality task_dim =
     (case data_type of
        None \<Rightarrow> Inl (ValidationError ''Data type not specified or has wrong value'')
      | Some ty \<Rightarrow>
          if ty = [] \<or> ty \<notin> set [''chunk'', ''frame'', ''preview'', ''context_image''] then
            Inl (ValidationError ''Data type not specified or has wrong value'')
          else if (ty = ''chunk'' \<or> ty = ''frame'') \<and> \<not> truthy data_num then
            Inl (ValidationError ''Number is not specified'')
          else if (ty = ''chunk'' \<or> ty = ''frame'')
                  \<and> data_quality \<notin> set [''compressed'', ''original''] then
            Inl (ValidationError ''Wrong quality value'')
          else
            (let q = (if data_quality = ''compressed'' then COMPRESSED else ORIGINAL) in
             case data_num of
               None \<Rightarrow>
                 Inr \<lparr>getter_type = ty, getter_number = None, getter_quality = q,
                      getter_dimension = task_dim\<rparr>
             | Some num \<Rightarrow>
                 if num = [] then
                   Inr \<lparr>getter_type = ty, getter_number = None, getter_quality = q,
                        getter_dimension = task_dim\<rparr>
                 else
                   (case to_int F num of
                      None \<Rightarrow> Inl ValueError
                    | Some n \<Rightarrow>
                        Inr \<lparr>getter_type = ty, getter_number = Some n, getter_quality = q,
                             getter_dimension = task_dim\<rparr>)))"

text \<open>\<^verbatim>\<open>str(n)\<close> of an integer, for the messages.\<close>

fun str_nat :: "nat \<Rightarrow> string" where
  "str_nat n =
     (if n < 10 then [char_of (48 + n)] else str_nat (n div 10) @ [char_of (48 + n mod 10)])"

declare str_nat.simps [simp del]

definition str_int :: "int \<Rightarrow> string" where
  "str_int i = (if i < 0 then ''-'' @ str_nat (nat (- i)) else str_nat (nat i))"

definition range_text :: "int \<Rightarrow> int \<Rightarrow> string" where
  "range_text lo hi = ''['' @ str_int lo @ '', '' @ str_int hi @ ''] range''"

text \<open>\<^verbatim>\<open>DataChunkGetter.__call__\<close>. Comparing \<^verbatim>\<open>None\<close> with a frame number raises
  \<^verbatim>\<open>TypeError\<close>.\<close>

definition data_chunk_getter_call ::
  "frame_env \<Rightarrow> data_chunk_getter \<Rightarrow> int \<Rightarrow> int \<Rightarrow> db_data option \<Rightarrow> error + data_response" where
  "data_chunk_getter_call F g start stop db_data =
     (case db_data of
        None \<Rightarrow> Inl (NotFound ''Cannot find requested data'')
      | Some d \<Rightarrow>
          if getter_type g = ''chunk'' then
            (let start_chunk = get_chunk_number F start;
                 stop_chunk = get_chunk_number F stop in
             case getter_number g of
               None \<Rightarrow> Inl TypeError
             | Some n \<Rightarrow>
                 if \<not> (start_chunk \<le> n \<and> n \<le> stop_chunk) then
                   Inl (ValidationError
                          (''The chunk number should be in '' @ range_text start_chunk stop_chunk))
                 else if USE_CACHE F \<and> data_storage_method d = CACHE then
                   Inr (ChunkBuffer n (getter_quality g))
                 else Inr (ChunkFile n (getter_quality g)))
          else if getter_type g = ''frame'' then
            (case getter_number g of
               None \<Rightarrow> Inl TypeError
             | Some n \<Rightarrow>
                 if \<not> (start \<le> n \<and> n \<le> stop) then
                   Inl (ValidationError
                          (''The frame number should be in '' @ range_text start stop))
                 else Inr (FrameBuffer n (getter_quality g)))
          else if getter_type g = ''preview'' then Inr PreviewFile
          else if getter_type g = ''context_image'' then
            (case getter_number g of
               None \<Rightarrow> Inl TypeError
             | Some n \<Rightarrow>
                 if \<not> (start \<le> n \<and> n \<le> stop) then
                   Inl (ValidationError
                          (''The frame number should be in '' @ range_text start stop))
                 else
                   (case related_files F (data_id d) n of
                      None \<Rightarrow> Inl DoesNotExist
                    | Some [] \<Rightarrow>
                        Inr (PlainResponse 404 ''No context image related to the frame'')
                    | Some (p # _) \<Rightarrow>
                        if imencode_ok F p then Inr (ContextImage p)
                        else Inl (PyException
                                    (''Failed to encode image to '' @ [CHR 0x22] @ ''.jpeg''
                                       @ [CHR 0x22] @ '' format''))))
          else Inr (PlainResponse 400 (''unknown data type '' @ getter_type g @ ''.'')))"

section \<open>Example settings, jobs and worlds\<close>

definition demo_settings :: settings where
  "demo_settings =
     \<lparr>export_formats = [\<lparr>DISPLAY_NAME = ''CVAT 1.1'', ENABLED = True\<rparr>,
                        \<lparr>DISPLAY_NAME = ''Legacy 0.1'', ENABLED = False\<rparr>],
      import_formats = [\<lparr>DISPLAY_NAME = ''CVAT 1.1'', ENABLED = True\<rparr>,
                        \<lparr>DISPLAY_NAME = ''Legacy 0.1'', ENABLED = False\<rparr>],
      project_cache_ttl = 36000,
      task_cache_ttl = 3600,
      import_error_prefix = ''cvat.apps.dataset_manager.bindings.CvatImportError'',
      av_scan_paths = (\<lambda>_. None),
      strftime = str_int\<rparr>"

definition demo_job :: "job_status \<Rightarrow> rq_job" where
  "demo_job st =
     \<lparr>job_func = ''import_dataset_as_project'', job_args = [],
      job_status = st,
      job_meta = [''tmp_file'' \<mapsto> PyStr ''/tmp/cvat_7abc'', ''tmp_file_descriptor'' \<mapsto> PyInt 9,
                  ''status'' \<mapsto> PyStr ''halfway'', ''progress'' \<mapsto> PyFloat (1 / 2),
                  ''task_progress'' \<mapsto> PyFloat (1 / 4), ''request_time'' \<mapsto> PyTime 100],
      exc_info = Some ''ValueError: bad archive'',
      return_value = Some ''/cache/export.zip'',
      result_ttl = None, failure_ttl = None\<rparr>"

definition demo_world :: "(string \<rightharpoonup> rq_job) \<Rightarrow> world" where
  "demo_world jobs =
     \<lparr>queues = (\<lambda>q. if q = ''default'' then jobs else Map.empty),
      files = [''/tmp/cvat_7abc'' \<mapsto> ''data''],
      open_fds = {9}\<rparr>"

definition demo_request :: "string \<Rightarrow> (string \<rightharpoonup> string) \<Rightarrow> request" where
  "demo_request m qp =
     \<lparr>req_method = m, query_params = qp, req_user = ''admin'', req_scheme = ''http'',
      req_host = Some ''localhost:8080'', req_file = Some ''archive''\<rparr>"

definition demo_task :: "int \<Rightarrow> int \<Rightarrow> db_task" where
  "demo_task i updated =
     \<lparr>task_id = i, task_name = ''Street'', task_updated_date = updated,
      task_data = Some 3, task_project = Some 7\<rparr>"

definition demo_project :: db_project where
  "demo_project =
     \<lparr>project_id = 7, project_name = ''Roads'', project_updated_date = 50,
      project_tasks = [demo_task 1 40, demo_task 2 90]\<rparr>"

definition demo_task_dirname :: "int \<Rightarrow> path" where
  "demo_task_dirname i = ''/data/tasks/'' @ str_int i"

definition demo_data_dirname :: "int \<Rightarrow> path" where
  "demo_data_dirname i = ''/data/data/'' @ str_int i"

definition demo_database :: "db_task list \<Rightarrow> database" where
  "demo_database rows =
     \<lparr>task_rows = rows, data_rows = {3}, project_rows = [7 \<mapsto> 50],
      dirs = {''/data/tasks/1'', ''/data/tasks/1/artifacts'', ''/data/tasks/2'',
              ''/data/data/3'', ''/data/data/3/raw''}\<rparr>"

definition demo_frames :: frame_env where
  "demo_frames =
     \<lparr>to_int = (\<lambda>s. if s = ''5'' then Some 5 else if s = ''99'' then Some 99 else None),
      get_chunk_number = (\<lambda>frame. frame div 36),
      USE_CACHE = True,
      related_files = (\<lambda>d frame. if frame = 5 then Some [''/data/data/3/related/5.png'']
                                    else Some []),
      imencode_ok = (\<lambda>_. True)\<rparr>"

definition demo_data :: db_data where
  "demo_data = \<lparr>data_id = 3, data_storage_method = CACHE\<rparr>"

definition demo_getter :: "string \<Rightarrow> int option \<Rightarrow> data_chunk_getter" where
  "demo_getter ty n =
     \<lparr>getter_type = ty, getter_number = n, getter_quality = COMPRESSED,
      getter_dimension = ''2d''\<rparr>"

definition demo_tree :: tree where
  "demo_tree =
     [''/home/django/share'' \<mapsto> [(''images'', Directory), (''clip.mp4'', RegularFile)],
      ''/home/django/share_backup'' \<mapsto>
        [(''secrets.txt'', RegularFile), (''old'', Directory), (''sock'', OtherEntry)]]"

section \<open>Polling relays the state of the job\<close>

text \<open>
  C5. \<^verbatim>\<open>_get_rq_response\<close> of the project and of the task view set leaves the world as
  it is and reports: \<^verbatim>\<open>Finished\<close> when the job is absent or finished, \<^verbatim>\<open>Queued\<close> when it is
  queued, \<^verbatim>\<open>Failed\<close> with the captured exception text when it is failed, and otherwise
  \<^verbatim>\<open>Started\<close> with the status message and the progress of the job's metadata (the
  project's helper reads \<^verbatim>\<open>status\<close> and \<^verbatim>\<open>progress\<close> with defaults, the task's helper
  adds the message only when \<^verbatim>\<open>status\<close> is there and reads \<^verbatim>\<open>task_progress\<close>).
\<close>

theorem get_rq_response_relays:
  "snd (project_get_rq_response w q jid) = w \<and> snd (task_get_rq_response w q jid) = w
   \<and> ((fetch_job w q jid = None \<or> (\<exists>j. fetch_job w q jid = Some j \<and> is_finished j)) \<longrightarrow>
        fst (project_get_rq_response w q jid) = [(''state'', PyStr ''Finished'')]
        \<and> fst (task_get_rq_response w q jid) = [(''state'', PyStr ''Finished'')])
   \<and> (\<forall>j. fetch_job w q jid = Some j \<and> is_queued j \<longrightarrow>
        fst (project_get_rq_response w q jid) = [(''state'', PyStr ''Queued'')]
        \<and> fst (task_get_rq_response w q jid) = [(''state'', PyStr ''Queued'')])
   \<and> (\<forall>j. fetch_job w q jid = Some j \<and> is_failed j \<longrightarrow>
        fst (project_get_rq_response w q jid)
          = [(''state'', PyStr ''Failed''), (''message'', exc_val j)]
        \<and> fst (task_get_rq_response w q jid)
          = [(''state'', PyStr ''Failed''), (''message'', exc_val j)])
   \<and> (\<forall>j. fetch_job w q jid = Some j \<and> \<not> is_finished j \<and> \<not> is_queued j \<and> \<not> is_failed j \<longrightarrow>
        fst (project_get_rq_response w q jid)
          = [(''state'', PyStr ''Started''),
             (''message'', dict_get (job_meta j) ''status'' (PyStr [])),
             (''progress'', dict_get (job_meta j) ''progress'' (PyFloat 0))]
        \<and> fst (task_get_rq_response w q jid)
          = [(''state'', PyStr ''Started'')]
            @ (case job_meta j ''status'' of None \<Rightarrow> [] | Some v \<Rightarrow> [(''message'', v)])
            @ [(''progress'', dict_get (job_meta j) ''task_progress'' (PyFloat 0))])"
  by (auto simp: project_get_rq_response_def task_get_rq_response_def is_finished_def
        is_queued_def is_failed_def split: option.splits)

theorem get_rq_response_relays_witness:
  "fst (project_get_rq_response (demo_world Map.empty) ''default'' ''/api/tasks/7'')
     = [(''state'', PyStr ''Finished'')]
   \<and> fst (task_get_rq_response (demo_world [''/api/tasks/7'' \<mapsto> demo_job JobQueued])
            ''default'' ''/api/tasks/7'')
     = [(''state'', PyStr ''Queued'')]
   \<and> fst (task_get_rq_response (demo_world [''/api/tasks/7'' \<mapsto> demo_job JobFailed])
            ''default'' ''/api/tasks/7'')
     = [(''state'', PyStr ''Failed''), (''message'', PyStr ''ValueError: bad archive'')]
   \<and> fst (project_get_rq_response (demo_world [''/api/tasks/7'' \<mapsto> demo_job JobDeferred])
            ''default'' ''/api/tasks/7'')
     = [(''state'', PyStr ''Started''), (''message'', PyStr ''halfway''),
        (''progress'', PyFloat (1 / 2))]"
  using get_rq_response_relays [of "demo_world Map.empty" "''default''" "''/api/tasks/7''"]
    get_rq_response_relays [of "demo_world [''/api/tasks/7'' \<mapsto> demo_job JobQueued]"
      "''default''" "''/api/tasks/7''"]
    get_rq_response_relays [of "demo_world [''/api/tasks/7'' \<mapsto> demo_job JobFailed]"
      "''default''" "''/api/tasks/7''"]
    get_rq_response_relays [of "demo_world [''/api/tasks/7'' \<mapsto> demo_job JobDeferred]"
      "''default''" "''/api/tasks/7''"]
  by (simp add: fetch_job_def demo_world_def demo_job_def is_finished_def is_queued_def
        is_failed_def exc_val_def dict_get_def)

section \<open>Importing a project dataset\<close>

text \<open>
  C10. A POST on the project dataset endpoint with a known, enabled format: when a job
  with the id \<^verbatim>\<open>/api/project/<pk>/dataset_import\<close> exists, whatever its state, the answer is
  409 with the body \<^verbatim>\<open>Import job already exists\<close> and the world is unchanged; an answer
  202 is given only when no such job existed, and then (the uploaded file being accepted)
  the import job is stored under that id.
\<close>

theorem import_project_dataset_conflict:
  assumes "req_method request = ''POST''"
    and "format_lookup (import_formats E) (query_get request ''format'' []) = Some format_desc"
    and "ENABLED format_desc"
  shows "(\<forall>j. fetch_job w ''default'' (project_dataset_import_rq_id pk) = Some j \<longrightarrow>
            project_dataset E w now request tmp db_proj pk
              = (Inr (Response 409 (Text ''Import job already exists'')), w))
     \<and> (fst (project_dataset E w now request tmp db_proj pk) = Inr (Response 202 NoBody) \<longrightarrow>
            fetch_job w ''default'' (project_dataset_import_rq_id pk) = None)
     \<and> (\<forall>dataset_file.
            fetch_job w ''default'' (project_dataset_import_rq_id pk) = None
            \<and> req_file request = Some dataset_file \<longrightarrow>
            fst (project_dataset E w now request tmp db_proj pk) = Inr (Response 202 NoBody)
            \<and> fetch_job (snd (project_dataset E w now request tmp db_proj pk)) ''default''
                 (project_dataset_import_rq_id pk)
               = Some (new_job ''import_dataset_as_project''
                         [PyStr pk, PyStr (snd tmp), PyStr (query_get request ''format'' [])]
                         [''tmp_file'' \<mapsto> PyStr (snd tmp),
                          ''tmp_file_descriptor'' \<mapsto> PyInt (fst tmp)] None None))"
  using assms
  by (auto simp: project_dataset_def import_project_dataset_def fetch_job_def enqueue_call_def
        write_tmp_def split: option.splits)

theorem import_project_dataset_conflict_witness:
  "project_dataset demo_settings
       (demo_world [''/api/project/7/dataset_import'' \<mapsto> demo_job JobFailed]) 200
       (demo_request ''POST'' [''format'' \<mapsto> ''CVAT 1.1'']) (11, ''/tmp/cvat_7xyz'')
       demo_project ''7''
     = (Inr (Response 409 (Text ''Import job already exists'')),
        demo_world [''/api/project/7/dataset_import'' \<mapsto> demo_job JobFailed])
   \<and> fst (project_dataset demo_settings (demo_world Map.empty) 200
            (demo_request ''POST'' [''format'' \<mapsto> ''CVAT 1.1'']) (11, ''/tmp/cvat_7xyz'')
            demo_project ''7'')
     = Inr (Response 202 NoBody)"
  using import_project_dataset_conflict
      [of "demo_request ''POST'' [''format'' \<mapsto> ''CVAT 1.1'']" demo_settings
          "\<lparr>DISPLAY_NAME = ''CVAT 1.1'', ENABLED = True\<rparr>"
          "demo_world [''/api/project/7/dataset_import'' \<mapsto> demo_job JobFailed]" "''7''"
          200 "(11, ''/tmp/cvat_7xyz'')" demo_project]
    import_project_dataset_conflict
      [of "demo_request ''POST'' [''format'' \<mapsto> ''CVAT 1.1'']" demo_settings
          "\<lparr>DISPLAY_NAME = ''CVAT 1.1'', ENABLED = True\<rparr>"
          "demo_world Map.empty" "''7''"
          200 "(11, ''/tmp/cvat_7xyz'')" demo_project]
  by (simp add: demo_request_def demo_settings_def format_lookup_def query_get_def
        fetch_job_def demo_world_def project_dataset_import_rq_id_def)

section \<open>Polling the import of a project dataset\<close>

lemma lower_Import_Status: "lower ''Import_Status'' = ''import_status''"
  by code_simp

text \<open>
  C7. A GET on the project dataset endpoint with \<^verbatim>\<open>action=import_status\<close>: without a job
  under \<^verbatim>\<open>/api/project/<pk>/dataset_import\<close> the answer is 404; with a finished job whose
  metadata names its open descriptor and its temporary file, the file is removed, the
  descriptor closed, the job deleted and the answer is 201; with a job that is neither
  finished nor failed the answer is 202 with the relayed status, and nothing changes.
\<close>

theorem import_status_poll:
  assumes "req_method request \<noteq> ''POST''"
    and "lower (query_get request ''action'' []) = ''import_status''"
  shows "(fetch_job w ''default'' (project_dataset_import_rq_id pk) = None \<longrightarrow>
            project_dataset E w now request tmp db_proj pk = (Inr (Response 404 NoBody), w))
     \<and> (\<forall>j fd p.
            fetch_job w ''default'' (project_dataset_import_rq_id pk) = Some j \<and> is_finished j
            \<and> job_meta j ''tmp_file_descriptor'' = Some (PyInt fd) \<and> fd \<in> open_fds w
            \<and> job_meta j ''tmp_file'' = Some (PyStr p) \<and> p \<in> dom (files w) \<longrightarrow>
            fst (project_dataset E w now request tmp db_proj pk) = Inr (Response 201 NoBody)
            \<and> files (snd (project_dataset E w now request tmp db_proj pk)) p = None
            \<and> fd \<notin> open_fds (snd (project_dataset E w now request tmp db_proj pk))
            \<and> fetch_job (snd (project_dataset E w now request tmp db_proj pk)) ''default''
                 (project_dataset_import_rq_id pk) = None)
     \<and> (\<forall>j. fetch_job w ''default'' (project_dataset_import_rq_id pk) = Some j
            \<and> \<not> is_finished j \<and> \<not> is_failed j \<longrightarrow>
            project_dataset E w now request tmp db_proj pk
              = (Inr (Response 202
                        (Dict (fst (project_get_rq_response w ''default''
                                      (project_dataset_import_rq_id pk))))), w))"
  using assms
  by (auto simp: project_dataset_def cleanup_tmp_def os_close_def os_remove_def fetch_job_def
        delete_job_def project_get_rq_response_def split: option.splits)

theorem import_status_poll_witness:
  "project_dataset demo_settings (demo_world Map.empty) 200
       (demo_request ''GET'' [''action'' \<mapsto> ''Import_Status'']) (11, ''/tmp/cvat_7xyz'')
       demo_project ''7''
     = (Inr (Response 404 NoBody), demo_world Map.empty)
   \<and> fst (project_dataset demo_settings
            (demo_world [''/api/project/7/dataset_import'' \<mapsto> demo_job JobFinished]) 200
            (demo_request ''GET'' [''action'' \<mapsto> ''Import_Status'']) (11, ''/tmp/cvat_7xyz'')
            demo_project ''7'')
     = Inr (Response 201 NoBody)
   \<and> files (snd (project_dataset demo_settings
            (demo_world [''/api/project/7/dataset_import'' \<mapsto> demo_job JobFinished]) 200
            (demo_request ''GET'' [''action'' \<mapsto> ''Import_Status'']) (11, ''/tmp/cvat_7xyz'')
            demo_project ''7'')) ''/tmp/cvat_7abc'' = None
   \<and> fst (project_dataset demo_settings
            (demo_world [''/api/project/7/dataset_import'' \<mapsto> demo_job JobStarted]) 200
            (demo_request ''GET'' [''action'' \<mapsto> ''Import_Status'']) (11, ''/tmp/cvat_7xyz'')
            demo_project ''7'')
     = Inr (Response 202 (Dict [(''state'', PyStr ''Started''), (''message'', PyStr ''halfway''),
                                 (''progress'', PyFloat (1 / 2))]))"
  using import_status_poll
      [where request = "demo_request ''GET'' [''action'' \<mapsto> ''Import_Status'']"
         and E = demo_settings and w = "demo_world Map.empty" and pk = "''7''" and now = 200
         and tmp = "(11, ''/tmp/cvat_7xyz'')" and db_proj = demo_project]
    import_status_poll
      [where request = "demo_request ''GET'' [''action'' \<mapsto> ''Import_Status'']"
         and E = demo_settings
         and w = "demo_world [''/api/project/7/dataset_import'' \<mapsto> demo_job JobFinished]"
         and pk = "''7''" and now = 200
         and tmp = "(11, ''/tmp/cvat_7xyz'')" and db_proj = demo_project]
    import_status_poll
      [where request = "demo_request ''GET'' [''action'' \<mapsto> ''Import_Status'']"
         and E = demo_settings
         and w = "demo_world [''/api/project/7/dataset_import'' \<mapsto> demo_job JobStarted]"
         and pk = "''7''" and now = 200
         and tmp = "(11, ''/tmp/cvat_7xyz'')" and db_proj = demo_project]
  by (simp add: demo_request_def query_get_def lower_Import_Status fetch_job_def
        demo_world_def demo_job_def project_dataset_import_rq_id_def is_finished_def
        is_failed_def is_queued_def project_get_rq_response_def dict_get_def)

section \<open>Unknown and disabled formats\<close>

text \<open>The dictionary built from the registered formats finds nothing exactly for the names
  no format carries, and what it finds is a registered format of that name.\<close>

lemma fold_formats_None:
  "fold (\<lambda>f m. m(DISPLAY_NAME f \<mapsto> f)) fs m n = None
     \<longleftrightarrow> m n = None \<and> n \<notin> DISPLAY_NAME ` set fs"
  by (induction fs arbitrary: m) auto

lemma format_lookup_None_iff:
  "format_lookup fs n = None \<longleftrightarrow> n \<notin> DISPLAY_NAME ` set fs"
  by (simp add: format_lookup_def fold_formats_None)

lemma fold_formats_Some:
  "fold (\<lambda>f m. m(DISPLAY_NAME f \<mapsto> f)) fs m n = Some fd \<Longrightarrow>
     m n = Some fd \<or> (fd \<in> set fs \<and> DISPLAY_NAME fd = n)"
proof (induction fs arbitrary: m)
  case Nil
  then show ?case by simp
next
  case (Cons a fs)
  from Cons.prems
  have "fold (\<lambda>f m. m(DISPLAY_NAME f \<mapsto> f)) fs (m(DISPLAY_NAME a \<mapsto> a)) n = Some fd"
    by (simp only: fold.simps o_apply)
  from Cons.IH [OF this] show ?case
    by (auto split: if_splits)
qed

lemma format_lookup_Some:
  "format_lookup fs n = Some fd \<Longrightarrow> fd \<in> set fs \<and> DISPLAY_NAME fd = n"
  using fold_formats_Some [of fs Map.empty n fd] by (simp add: format_lookup_def)

text \<open>An export with a format name that no registered format carries raises a validation
  error; the answer is not 405.\<close>

theorem unknown_format_raises:
  "export_annotations demo_settings (demo_world Map.empty) 200 (TaskInstance (demo_task 1 40))
       ''/api/tasks/1/annotations/YOLO 9'' (demo_request ''GET'' [''format'' \<mapsto> ''YOLO 9''])
       ''YOLO 9'' [] ''export_task_annotations'' []
     = (Inl (ValidationError ''Unknown format specified for the request''),
        demo_world Map.empty)
   \<and> ''YOLO 9'' \<notin> DISPLAY_NAME ` set (export_formats demo_settings)"
  by (simp add: export_annotations_def format_lookup_def demo_settings_def)

text \<open>
  C3, as the code has it. An import (of annotations or of a project dataset) whose format
  name no registered import format carries raises \<^verbatim>\<open>ValidationError\<close>, and one whose format is
  registered and disabled is answered 405; the same holds for an export whose action is
  empty or \<^verbatim>\<open>download\<close>, over the export formats. In each case the world, and so the
  queue, is unchanged: nothing is enqueued.
\<close>

theorem format_gate:
  "(format_name \<notin> DISPLAY_NAME ` set (import_formats E) \<longrightarrow>
      import_annotations E w request tmp rq_id rq_func pk format_name
        = (Inl (ValidationError (''Unknown input format '' @ quote format_name)), w)
      \<and> import_project_dataset E w request tmp rq_id rq_func pk format_name
        = (Inl (ValidationError (''Unknown input format '' @ quote format_name)), w))
   \<and> (\<forall>format_desc.
        format_lookup (import_formats E) format_name = Some format_desc
        \<and> \<not> ENABLED format_desc \<longrightarrow>
        import_annotations E w request tmp rq_id rq_func pk format_name
          = (Inr (Response 405 NoBody), w)
        \<and> import_project_dataset E w request tmp rq_id rq_func pk format_name
          = (Inr (Response 405 NoBody), w))
   \<and> ((action = [] \<or> action = ''download'')
        \<and> format_name \<notin> DISPLAY_NAME ` set (export_formats E) \<longrightarrow>
        export_annotations E w now db_instance rq_id request format_name action callback
            filename
          = (Inl (ValidationError ''Unknown format specified for the request''), w))
   \<and> (\<forall>format_desc.
        (action = [] \<or> action = ''download'')
        \<and> format_lookup (export_formats E) format_name = Some format_desc
        \<and> \<not> ENABLED format_desc \<longrightarrow>
        export_annotations E w now db_instance rq_id request format_name action callback
            filename
          = (Inr (Response 405 NoBody), w))"
  by (auto simp: import_annotations_def import_project_dataset_def export_annotations_def
        format_lookup_None_iff [symmetric])

theorem format_gate_witness:
  "import_annotations demo_settings (demo_world Map.empty)
       (demo_request ''PUT'' [''format'' \<mapsto> ''YOLO 9'']) (11, ''/tmp/cvat_1xyz'')
       ''admin@/api/tasks/1/annotations/upload'' ''import_task_annotations'' ''1'' ''YOLO 9''
     = (Inl (ValidationError (''Unknown input format '' @ quote ''YOLO 9'')),
        demo_world Map.empty)
   \<and> import_project_dataset demo_settings (demo_world Map.empty)
       (demo_request ''POST'' [''format'' \<mapsto> ''Legacy 0.1'']) (11, ''/tmp/cvat_7xyz'')
       ''/api/project/7/dataset_import'' ''import_dataset_as_project'' ''7'' ''Legacy 0.1''
     = (Inr (Response 405 NoBody), demo_world Map.empty)
   \<and> export_annotations demo_settings (demo_world Map.empty) 200
       (TaskInstance (demo_task 1 40)) ''/api/tasks/1/annotations/Legacy 0.1''
       (demo_request ''GET'' [''format'' \<mapsto> ''Legacy 0.1'']) ''Legacy 0.1'' ''download''
       ''export_task_annotations'' []
     = (Inr (Response 405 NoBody), demo_world Map.empty)"
  using format_gate
      [where E = demo_settings and w = "demo_world Map.empty" and format_name = "''YOLO 9''"
         and request = "demo_request ''PUT'' [''format'' \<mapsto> ''YOLO 9'']"
         and tmp = "(11, ''/tmp/cvat_1xyz'')"
         and rq_id = "''admin@/api/tasks/1/annotations/upload''"
         and rq_func = "''import_task_annotations''" and pk = "''1''"]
    format_gate
      [where E = demo_settings and w = "demo_world Map.empty"
         and format_name = "''Legacy 0.1''"
         and request = "demo_request ''POST'' [''format'' \<mapsto> ''Legacy 0.1'']"
         and tmp = "(11, ''/tmp/cvat_7xyz'')"
         and rq_id = "''/api/project/7/dataset_import''"
         and rq_func = "''import_dataset_as_project''" and pk = "''7''"]
    format_gate
      [where E = demo_settings and w = "demo_world Map.empty"
         and format_name = "''Legacy 0.1''" and action = "''download''" and now = 200
         and db_instance = "TaskInstance (demo_task 1 40)"
         and rq_id = "''/api/tasks/1/annotations/Legacy 0.1''"
         and request = "demo_request ''GET'' [''format'' \<mapsto> ''Legacy 0.1'']"
         and callback = "''export_task_annotations''" and filename = "[]"]
  by (simp add: demo_settings_def format_lookup_def)

section \<open>Failed jobs\<close>

text \<open>A deleted job is no longer found, and removing a text that stands at the start of a
  string leaves the rest to be searched.\<close>

lemma fetch_job_delete_job: "fetch_job (delete_job w q i) q i = None"
  by (simp add: fetch_job_def delete_job_def)

lemma replace_at_start:
  "old \<noteq> [] \<Longrightarrow> replace old new (old @ s) = new @ replace old new s"
  by (subst replace.simps) (simp add: startswith_def)

lemma demo_prefix_present:
  "startswith ''cvat.apps.dataset_manager.bindings.CvatImportError: bad xml''
     (import_error_prefix demo_settings)"
  by (simp add: startswith_def demo_settings_def)

lemma demo_prefix_removed:
  "replace (import_error_prefix demo_settings @ '': '') []
     ''cvat.apps.dataset_manager.bindings.CvatImportError: bad xml'' = ''bad xml''"
  unfolding demo_settings_def by code_simp

text \<open>An annotation import whose job failed with an exception other than the import error
  is answered 500, not 400.\<close>

theorem failed_import_answers_500:
  "fst (import_annotations demo_settings
          (demo_world [''admin@/api/tasks/1/annotations/upload'' \<mapsto> demo_job JobFailed])
          (demo_request ''PUT'' [''format'' \<mapsto> ''CVAT 1.1'']) (11, ''/tmp/cvat_1xyz'')
          ''admin@/api/tasks/1/annotations/upload'' ''import_task_annotations'' ''1''
          ''CVAT 1.1'')
     = Inr (Response 500 (Text ''ValueError: bad archive''))
   \<and> is_failed (demo_job JobFailed)"
  by (simp add: import_annotations_def format_lookup_def demo_settings_def fetch_job_def
        demo_world_def demo_job_def is_finished_def is_failed_def cleanup_tmp_def
        os_close_def os_remove_def str_opt_def startswith_def)

text \<open>
  C2, as the code has it. When the view finds its job failed, and closing the descriptor
  and removing the temporary file of an import job succeed, the job is deleted and the
  captured exception text is the body of the answer: \<^verbatim>\<open>_import_annotations\<close> answers 400
  with the qualified name of the import error class and the colon after it removed when
  the text starts with that name, and 500 with the text as it is otherwise; the
  \<^verbatim>\<open>import_status\<close> poll of a project answers 500; \<^verbatim>\<open>_export_annotations\<close> answers 500 when
  the job was requested no earlier than the last update of the exported resource.
\<close>

theorem failed_job_relayed:
  "(\<forall>format_desc j w1.
      format_lookup (import_formats E) format_name = Some format_desc \<and> ENABLED format_desc
      \<and> fetch_job w ''default'' rq_id = Some j \<and> is_failed j
      \<and> cleanup_tmp w j = (None, w1) \<longrightarrow>
      import_annotations E w request tmp rq_id rq_func pk format_name
        = (Inr (if startswith (str_opt (exc_info j)) (import_error_prefix E)
                then Response 400
                       (Text (replace (import_error_prefix E @ '': '') []
                                (str_opt (exc_info j))))
                else Response 500 (Text (str_opt (exc_info j)))),
           delete_job w1 ''default'' rq_id))
   \<and> (\<forall>j w1.
      req_method request \<noteq> ''POST'' \<and> lower (query_get request ''action'' []) = ''import_status''
      \<and> fetch_job w ''default'' (project_dataset_import_rq_id pk) = Some j \<and> is_failed j
      \<and> cleanup_tmp w j = (None, w1) \<longrightarrow>
      project_dataset E w now request tmp db_proj pk
        = (Inr (Response 500 (Text (str_opt (exc_info j)))),
           delete_job w1 ''default'' (project_dataset_import_rq_id pk)))
   \<and> (\<forall>format_desc j t.
      (action = [] \<or> action = ''download'')
      \<and> format_lookup (export_formats E) format_name = Some format_desc \<and> ENABLED format_desc
      \<and> fetch_job w ''default'' rq_id = Some j \<and> is_failed j
      \<and> job_meta j ''request_time'' = Some (PyTime t)
      \<and> last_instance_update_time db_instance \<le> t \<longrightarrow>
      export_annotations E w now db_instance rq_id request format_name action callback
          filename
        = (Inr (Response 500 (Text (str_opt (exc_info j)))), delete_job w ''default'' rq_id))"
  by (auto simp: import_annotations_def project_dataset_def export_annotations_def
        is_failed_def is_finished_def request_is_stale_def dict_get_def Let_def)

theorem failed_job_relayed_witness:
  "fst (import_annotations demo_settings
          (demo_world [''admin@/api/tasks/1/annotations/upload'' \<mapsto>
             (demo_job JobFailed)
               \<lparr>exc_info := Some ''cvat.apps.dataset_manager.bindings.CvatImportError: bad xml''\<rparr>])
          (demo_request ''PUT'' [''format'' \<mapsto> ''CVAT 1.1'']) (11, ''/tmp/cvat_1xyz'')
          ''admin@/api/tasks/1/annotations/upload'' ''import_task_annotations'' ''1''
          ''CVAT 1.1'')
     = Inr (Response 400 (Text ''bad xml''))
   \<and> fst (project_dataset demo_settings
            (demo_world [''/api/project/7/dataset_import'' \<mapsto> demo_job JobFailed]) 200
            (demo_request ''GET'' [''action'' \<mapsto> ''Import_Status'']) (11, ''/tmp/cvat_7xyz'')
            demo_project ''7'')
     = Inr (Response 500 (Text ''ValueError: bad archive''))
   \<and> export_annotations demo_settings
        (demo_world [''/api/tasks/1/annotations/CVAT 1.1'' \<mapsto> demo_job JobFailed]) 200
        (TaskInstance (demo_task 1 40)) ''/api/tasks/1/annotations/CVAT 1.1''
        (demo_request ''GET'' [''format'' \<mapsto> ''CVAT 1.1'']) ''CVAT 1.1'' []
        ''export_task_annotations'' []
     = (Inr (Response 500 (Text ''ValueError: bad archive'')),
        delete_job (demo_world [''/api/tasks/1/annotations/CVAT 1.1'' \<mapsto> demo_job JobFailed])
          ''default'' ''/api/tasks/1/annotations/CVAT 1.1'')"
  using failed_job_relayed
      [where E = demo_settings and format_name = "''CVAT 1.1''"
         and w = "demo_world [''admin@/api/tasks/1/annotations/upload'' \<mapsto>
             (demo_job JobFailed)
               \<lparr>exc_info := Some ''cvat.apps.dataset_manager.bindings.CvatImportError: bad xml''\<rparr>]"
         and rq_id = "''admin@/api/tasks/1/annotations/upload''"
         and request = "demo_request ''PUT'' [''format'' \<mapsto> ''CVAT 1.1'']"
         and tmp = "(11, ''/tmp/cvat_1xyz'')" and rq_func = "''import_task_annotations''"
         and pk = "''1''"]
    failed_job_relayed
      [where E = demo_settings
         and w = "demo_world [''/api/project/7/dataset_import'' \<mapsto> demo_job JobFailed]"
         and request = "demo_request ''GET'' [''action'' \<mapsto> ''Import_Status'']"
         and pk = "''7''" and now = 200 and tmp = "(11, ''/tmp/cvat_7xyz'')"
         and db_proj = demo_project]
    failed_job_relayed
      [where E = demo_settings and format_name = "''CVAT 1.1''" and action = "[]"
         and w = "demo_world [''/api/tasks/1/annotations/CVAT 1.1'' \<mapsto> demo_job JobFailed]"
         and rq_id = "''/api/tasks/1/annotations/CVAT 1.1''" and now = 200
         and db_instance = "TaskInstance (demo_task 1 40)"
         and request = "demo_request ''GET'' [''format'' \<mapsto> ''CVAT 1.1'']"
         and callback = "''export_task_annotations''" and filename = "[]"]
  by (simp add: demo_prefix_present demo_prefix_removed lower_Import_Status demo_request_def
        query_get_def is_failed_def str_opt_def cleanup_tmp_def os_close_def os_remove_def
        fetch_job_def demo_world_def demo_job_def project_dataset_import_rq_id_def
        last_instance_update_time_def demo_task_def)
    (simp add: demo_settings_def format_lookup_def)

section \<open>The export cache\<close>

text \<open>The last update of a project is the greatest of its own update time and the update
  times of its tasks.\<close>

lemma fold_max_Max: "fold max xs (a::int) = Max (insert a (set xs))"
  using Max.set_eq_fold [of a xs] by simp

lemma last_update_of_project:
  "last_instance_update_time (ProjectInstance p)
     = Max (insert (project_updated_date p) (task_updated_date ` set (project_tasks p)))"
  by (simp add: last_instance_update_time_def fold_max_Max)

text \<open>A finished job that is not out of date, and whose result file is gone, does not answer
  the request: a new job is enqueued under the same id.\<close>

theorem missing_result_file_enqueues:
  "request_is_stale (dict_get (job_meta (demo_job JobFinished)) ''request_time'' PyNone)
       (last_instance_update_time (TaskInstance (demo_task 1 40))) = Inr False
   \<and> fetch_job
        (snd (export_annotations demo_settings
                (demo_world [''/api/tasks/1/annotations/CVAT 1.1'' \<mapsto> demo_job JobFinished])
                200 (TaskInstance (demo_task 1 40)) ''/api/tasks/1/annotations/CVAT 1.1''
                (demo_request ''GET'' [''format'' \<mapsto> ''CVAT 1.1'']) ''CVAT 1.1'' []
                ''export_task_annotations'' []))
        ''default'' ''/api/tasks/1/annotations/CVAT 1.1''
     = Some (new_job ''export_task_annotations''
               [PyInt 1, PyStr ''CVAT 1.1'', PyStr ''http://localhost:8080'']
               [''request_time'' \<mapsto> PyTime 200] (Some 3600) (Some 3600))"
  by (simp add: export_annotations_def format_lookup_def demo_settings_def fetch_job_def
        demo_world_def demo_job_def is_finished_def request_is_stale_def dict_get_def
        last_instance_update_time_def demo_task_def osp_exists_def enqueue_export_def
        enqueue_call_def is_project_def instance_id_def server_address_def demo_request_def)

text \<open>
  C1, as the code has it. An export request with an empty or \<^verbatim>\<open>download\<close> action and a known,
  enabled format finds a cached job under its id. If the job's \<^verbatim>\<open>request_time\<close> is missing
  or earlier than the last update of the exported resource (for a project, the greatest of
  its own update time and those of its tasks), the job is deleted and a new job, stamped
  with the current time, is enqueued with the cache lifetime of the resource's kind as its
  result and failure lifetime. Otherwise the cached job answers: 500 with the exception
  text and the job deleted when it failed, 202 when it is neither finished nor failed, the
  file (and the job deleted) or 201 when it is finished and its result file exists;
  nothing is enqueued then. When it is finished and the result file does not exist, a new
  job is enqueued.
\<close>

theorem export_cache_policy:
  assumes "action = [] \<or> action = ''download''"
    and "format_lookup (export_formats E) format_name = Some format_desc"
    and "ENABLED format_desc"
    and "fetch_job w ''default'' rq_id = Some j"
  shows "((job_meta j ''request_time'' = None \<or> job_meta j ''request_time'' = Some PyNone
           \<or> (\<exists>t. job_meta j ''request_time'' = Some (PyTime t)
                   \<and> t < last_instance_update_time db_instance)) \<longrightarrow>
          export_annotations E w now db_instance rq_id request format_name action callback
              filename
            = (Inr (Response 202 NoBody),
               enqueue_call (delete_job w ''default'' rq_id) ''default'' rq_id
                 (new_job callback
                    [PyInt (instance_id db_instance), PyStr format_name,
                     server_address request]
                    [''request_time'' \<mapsto> PyTime now]
                    (Some (if is_project db_instance then project_cache_ttl E
                           else task_cache_ttl E))
                    (Some (if is_project db_instance then project_cache_ttl E
                           else task_cache_ttl E)))))
     \<and> (\<forall>p. db_instance = ProjectInstance p \<longrightarrow>
           last_instance_update_time db_instance
             = Max (insert (project_updated_date p)
                      (task_updated_date ` set (project_tasks p))))
     \<and> (\<forall>t. job_meta j ''request_time'' = Some (PyTime t)
             \<and> last_instance_update_time db_instance \<le> t \<longrightarrow>
           (is_failed j \<longrightarrow>
              export_annotations E w now db_instance rq_id request format_name action
                  callback filename
                = (Inr (Response 500 (Text (str_opt (exc_info j)))),
                   delete_job w ''default'' rq_id))
           \<and> (\<not> is_finished j \<and> \<not> is_failed j \<longrightarrow>
              export_annotations E w now db_instance rq_id request format_name action
                  callback filename
                = (Inr (Response 202 NoBody), w))
           \<and> (\<forall>file_path.
                is_finished j \<and> return_value j = Some file_path \<and> osp_exists w file_path \<longrightarrow>
                export_annotations E w now db_instance rq_id request format_name action
                    callback filename
                  = (if action = ''download'' then
                       (Inr (Sendfile file_path
                               (lower (export_filename E db_instance
                                         (last_instance_update_time db_instance)
                                         format_name file_path filename))),
                        delete_job w ''default'' rq_id)
                     else (Inr (Response 201 NoBody), w)))
           \<and> (\<forall>file_path.
                is_finished j \<and> return_value j = Some file_path
                \<and> \<not> osp_exists w file_path \<longrightarrow>
                export_annotations E w now db_instance rq_id request format_name action
                    callback filename
                  = enqueue_export E w now db_instance rq_id request format_name callback))"
  using assms
  by (auto simp: export_annotations_def is_failed_def is_finished_def request_is_stale_def
        dict_get_def Let_def enqueue_export_def last_update_of_project)

lemma lower_out_zip: "lower ''out.zip'' = ''out.zip''"
  by code_simp

lemma demo_export_format:
  "format_lookup (export_formats demo_settings) ''CVAT 1.1''
     = Some \<lparr>DISPLAY_NAME = ''CVAT 1.1'', ENABLED = True\<rparr>"
  by (simp add: format_lookup_def demo_settings_def)

theorem export_cache_policy_witness:
  "export_annotations demo_settings
       (demo_world [''/api/tasks/1/annotations/CVAT 1.1'' \<mapsto> demo_job JobFinished]) 200
       (TaskInstance (demo_task 1 150)) ''/api/tasks/1/annotations/CVAT 1.1''
       (demo_request ''GET'' [''format'' \<mapsto> ''CVAT 1.1'']) ''CVAT 1.1'' []
       ''export_task_annotations'' []
     = (Inr (Response 202 NoBody),
        enqueue_call
          (delete_job
             (demo_world [''/api/tasks/1/annotations/CVAT 1.1'' \<mapsto> demo_job JobFinished])
             ''default'' ''/api/tasks/1/annotations/CVAT 1.1'')
          ''default'' ''/api/tasks/1/annotations/CVAT 1.1''
          (new_job ''export_task_annotations''
             [PyInt 1, PyStr ''CVAT 1.1'', PyStr ''http://localhost:8080'']
             [''request_time'' \<mapsto> PyTime 200] (Some 3600) (Some 3600)))
   \<and> last_instance_update_time (ProjectInstance demo_project) = 90
   \<and> export_annotations demo_settings
        (demo_world [''/api/project/7/dataset/CVAT 1.1'' \<mapsto> demo_job JobStarted]) 200
        (ProjectInstance demo_project) ''/api/project/7/dataset/CVAT 1.1''
        (demo_request ''GET'' [''format'' \<mapsto> ''CVAT 1.1'']) ''CVAT 1.1'' []
        ''export_project_as_dataset'' []
     = (Inr (Response 202 NoBody),
        demo_world [''/api/project/7/dataset/CVAT 1.1'' \<mapsto> demo_job JobStarted])
   \<and> fst (export_annotations demo_settings
        (demo_world [''/api/tasks/1/annotations/CVAT 1.1'' \<mapsto>
           (demo_job JobFinished)\<lparr>return_value := Some ''/tmp/cvat_7abc''\<rparr>]) 200
        (TaskInstance (demo_task 1 40)) ''/api/tasks/1/annotations/CVAT 1.1''
        (demo_request ''GET'' [''format'' \<mapsto> ''CVAT 1.1'']) ''CVAT 1.1'' ''download''
        ''export_task_annotations'' ''out.zip'')
     = Inr (Sendfile ''/tmp/cvat_7abc'' ''out.zip'')"
proof -
  let ?fmt = "\<lparr>DISPLAY_NAME = ''CVAT 1.1'', ENABLED = True\<rparr>"
  let ?req = "demo_request ''GET'' [''format'' \<mapsto> ''CVAT 1.1'']"
  let ?w1 = "demo_world [''/api/tasks/1/annotations/CVAT 1.1'' \<mapsto> demo_job JobFinished]"
  let ?w2 = "demo_world [''/api/project/7/dataset/CVAT 1.1'' \<mapsto> demo_job JobStarted]"
  let ?j3 = "(demo_job JobFinished)\<lparr>return_value := Some ''/tmp/cvat_7abc''\<rparr>"
  let ?w3 = "demo_world [''/api/tasks/1/annotations/CVAT 1.1'' \<mapsto> ?j3]"
  have en: "ENABLED ?fmt" by simp
  have a0: "([]::string) = [] \<or> ([]::string) = ''download''" by simp
  have a1: "''download'' = [] \<or> ''download'' = ''download''" by simp
  have f1: "fetch_job ?w1 ''default'' ''/api/tasks/1/annotations/CVAT 1.1''
              = Some (demo_job JobFinished)"
    by (simp add: fetch_job_def demo_world_def)
  have f2: "fetch_job ?w2 ''default'' ''/api/project/7/dataset/CVAT 1.1''
              = Some (demo_job JobStarted)"
    by (simp add: fetch_job_def demo_world_def)
  have f3: "fetch_job ?w3 ''default'' ''/api/tasks/1/annotations/CVAT 1.1'' = Some ?j3"
    by (simp add: fetch_job_def demo_world_def)
  have t150: "last_instance_update_time (TaskInstance (demo_task 1 150)) = 150"
    by (simp add: last_instance_update_time_def demo_task_def)
  have t40: "last_instance_update_time (TaskInstance (demo_task 1 40)) = 40"
    by (simp add: last_instance_update_time_def demo_task_def)
  have p90: "last_instance_update_time (ProjectInstance demo_project) = 90"
    by (simp add: last_instance_update_time_def demo_task_def demo_project_def)
  have id150: "instance_id (TaskInstance (demo_task 1 150)) = 1"
    by (simp add: instance_id_def demo_task_def)
  have ttl: "task_cache_ttl demo_settings = 3600"
    by (simp add: demo_settings_def)
  have addr: "server_address ?req = PyStr ''http://localhost:8080''"
    by (simp add: server_address_def demo_request_def)
  have rt: "job_meta (demo_job st) ''request_time'' = Some (PyTime 100)" for st
    by (simp add: demo_job_def)
  have rt3: "job_meta ?j3 ''request_time'' = Some (PyTime 100)"
    by (simp add: demo_job_def)
  have stale:
    "export_annotations demo_settings ?w1 200 (TaskInstance (demo_task 1 150))
         ''/api/tasks/1/annotations/CVAT 1.1'' ?req ''CVAT 1.1'' []
         ''export_task_annotations'' []
       = (Inr (Response 202 NoBody),
          enqueue_call (delete_job ?w1 ''default'' ''/api/tasks/1/annotations/CVAT 1.1'')
            ''default'' ''/api/tasks/1/annotations/CVAT 1.1''
            (new_job ''export_task_annotations''
               [PyInt 1, PyStr ''CVAT 1.1'', PyStr ''http://localhost:8080'']
               [''request_time'' \<mapsto> PyTime 200] (Some 3600) (Some 3600)))"
    using export_cache_policy
        [where db_instance = "TaskInstance (demo_task 1 150)" and now = 200
           and request = ?req and callback = "''export_task_annotations''"
           and filename = "[]",
         OF a0 demo_export_format en f1, THEN conjunct1]
    by (simp add: rt t150 id150 ttl addr is_project_def)
  have started:
    "export_annotations demo_settings ?w2 200 (ProjectInstance demo_project)
         ''/api/project/7/dataset/CVAT 1.1'' ?req ''CVAT 1.1'' []
         ''export_project_as_dataset'' []
       = (Inr (Response 202 NoBody), ?w2)"
    using export_cache_policy
        [where db_instance = "ProjectInstance demo_project" and now = 200
           and request = ?req and callback = "''export_project_as_dataset''"
           and filename = "[]",
         OF a0 demo_export_format en f2, THEN conjunct2, THEN conjunct2, THEN spec,
         of 100]
    by (simp add: rt p90 is_finished_def is_failed_def demo_job_def)
  have le3: "job_meta ?j3 ''request_time'' = Some (PyTime 100)
               \<and> last_instance_update_time (TaskInstance (demo_task 1 40)) \<le> 100"
    by (simp add: rt t40)
  have h3: "is_finished ?j3 \<and> return_value ?j3 = Some ''/tmp/cvat_7abc''
              \<and> osp_exists ?w3 ''/tmp/cvat_7abc''"
    by (simp add: is_finished_def demo_job_def osp_exists_def demo_world_def)
  have name3: "lower (export_filename demo_settings (TaskInstance (demo_task 1 40))
                        (last_instance_update_time (TaskInstance (demo_task 1 40)))
                        ''CVAT 1.1'' ''/tmp/cvat_7abc'' ''out.zip'') = ''out.zip''"
    by (simp add: export_filename_def lower_out_zip)
  have download:
    "export_annotations demo_settings ?w3 200 (TaskInstance (demo_task 1 40))
         ''/api/tasks/1/annotations/CVAT 1.1'' ?req ''CVAT 1.1'' ''download''
         ''export_task_annotations'' ''out.zip''
       = (Inr (Sendfile ''/tmp/cvat_7abc'' ''out.zip''),
          delete_job ?w3 ''default'' ''/api/tasks/1/annotations/CVAT 1.1'')"
    using export_cache_policy
        [where db_instance = "TaskInstance (demo_task 1 40)" and now = 200
           and request = ?req and callback = "''export_task_annotations''"
           and filename = "''out.zip''",
         OF a1 demo_export_format en f3, THEN conjunct2, THEN conjunct2, THEN spec,
         of 100, THEN mp, OF le3, THEN conjunct2, THEN conjunct2, THEN conjunct1,
         THEN spec, of "''/tmp/cvat_7abc''", THEN mp, OF h3]
    by (simp only: name3 simp_thms if_True)
  from stale p90 started download show ?thesis
    by simp
qed

section \<open>Destroying a task\<close>

text \<open>
  C4. After \<^verbatim>\<open>perform_destroy\<close> the task's row is gone and its directory is removed. If
  the task had data that no other task references, the data's directory is removed and
  the data row is deleted. If another task still references the data, the data rows are
  as before and the only directories removed are those of the task's own tree, so the
  data's directory, lying outside that tree, is as it was.
\<close>

theorem perform_destroy_removes:
  "task_dirname (task_id instance)
     \<notin> dirs (perform_destroy task_dirname data_dirname now db instance)
   \<and> (\<forall>t \<in> set (task_rows (perform_destroy task_dirname data_dirname now db instance)).
         task_id t \<noteq> task_id instance)
   \<and> (\<forall>d. task_data instance = Some d
           \<and> (\<forall>t \<in> set (task_rows db). task_data t = Some d \<longrightarrow> task_id t = task_id instance)
         \<longrightarrow> data_dirname d \<notin> dirs (perform_destroy task_dirname data_dirname now db instance)
           \<and> d \<notin> data_rows (perform_destroy task_dirname data_dirname now db instance))
   \<and> (\<forall>d. task_data instance = Some d
           \<and> (\<exists>t \<in> set (task_rows db). task_data t = Some d \<and> task_id t \<noteq> task_id instance)
         \<longrightarrow> data_rows (perform_destroy task_dirname data_dirname now db instance)
               = data_rows db
           \<and> dirs (perform_destroy task_dirname data_dirname now db instance)
               = rmtree (dirs db) (task_dirname (task_id instance))
           \<and> (\<forall>q. \<not> below q (task_dirname (task_id instance)) \<longrightarrow>
                 (q \<in> dirs (perform_destroy task_dirname data_dirname now db instance)
                    \<longleftrightarrow> q \<in> dirs db)))"
proof -
  let ?db' = "perform_destroy task_dirname data_dirname now db instance"
  let ?rest = "filter (\<lambda>t. task_id t \<noteq> task_id instance) (task_rows db)"
  have rows: "task_rows ?db' = ?rest"
    by (simp add: perform_destroy_def Let_def split: option.splits)
  have a: "task_dirname (task_id instance) \<notin> dirs ?db'"
    by (auto simp: perform_destroy_def Let_def rmtree_def below_def split: option.splits)
  have b: "\<forall>t \<in> set (task_rows ?db'). task_id t \<noteq> task_id instance"
    by (simp add: rows)
  have c: "data_dirname d \<notin> dirs ?db' \<and> d \<notin> data_rows ?db'"
    if "task_data instance = Some d"
      and "\<forall>t \<in> set (task_rows db). task_data t = Some d \<longrightarrow> task_id t = task_id instance"
    for d
  proof -
    from that(2) have "filter (\<lambda>t. task_data t = Some d) ?rest = []"
      by (auto simp: filter_empty_conv)
    with that(1) show ?thesis
      by (auto simp: perform_destroy_def Let_def data_tasks_def rmtree_def below_def
            split: option.splits)
  qed
  have d: "data_rows ?db' = data_rows db
             \<and> dirs ?db' = rmtree (dirs db) (task_dirname (task_id instance))"
    if "task_data instance = Some d"
      and "\<exists>t \<in> set (task_rows db). task_data t = Some d \<and> task_id t \<noteq> task_id instance"
    for d
  proof -
    from that(2) have "filter (\<lambda>t. task_data t = Some d) ?rest \<noteq> []"
      by (auto simp: filter_empty_conv)
    with that(1) show ?thesis
      by (auto simp: perform_destroy_def Let_def data_tasks_def split: option.splits)
  qed
  have e: "q \<in> rmtree ds p \<longleftrightarrow> q \<in> ds" if "\<not> below q p" for q ds p
    using that by (simp add: rmtree_def)
  show ?thesis
    using a b c d e by metis
qed

lemma demo_task_dirname_1: "demo_task_dirname 1 = ''/data/tasks/1''"
  unfolding demo_task_dirname_def by code_simp

lemma demo_data_dirname_3: "demo_data_dirname 3 = ''/data/data/3''"
  unfolding demo_data_dirname_def by code_simp

theorem perform_destroy_removes_witness:
  "''/data/tasks/1''
     \<notin> dirs (perform_destroy demo_task_dirname demo_data_dirname 200
               (demo_database [demo_task 1 40, demo_task 2 90]) (demo_task 1 40))
   \<and> ''/data/data/3''
     \<in> dirs (perform_destroy demo_task_dirname demo_data_dirname 200
               (demo_database [demo_task 1 40, demo_task 2 90]) (demo_task 1 40))
   \<and> 3 \<in> data_rows (perform_destroy demo_task_dirname demo_data_dirname 200
               (demo_database [demo_task 1 40, demo_task 2 90]) (demo_task 1 40))
   \<and> ''/data/data/3''
     \<notin> dirs (perform_destroy demo_task_dirname demo_data_dirname 200
               (demo_database [demo_task 1 40]) (demo_task 1 40))
   \<and> 3 \<notin> data_rows (perform_destroy demo_task_dirname demo_data_dirname 200
               (demo_database [demo_task 1 40]) (demo_task 1 40))"
proof -
  let ?shared = "demo_database [demo_task 1 40, demo_task 2 90]"
  let ?alone = "demo_database [demo_task 1 40]"
  have i1: "task_id (demo_task 1 40) = 1" and d1: "task_data (demo_task 1 40) = Some 3"
    by (simp_all add: demo_task_def)
  have other: "\<exists>t \<in> set (task_rows ?shared).
                 task_data t = Some 3 \<and> task_id t \<noteq> task_id (demo_task 1 40)"
    by (simp add: demo_database_def demo_task_def)
  have none: "\<forall>t \<in> set (task_rows ?alone).
                 task_data t = Some 3 \<longrightarrow> task_id t = task_id (demo_task 1 40)"
    by (simp add: demo_database_def demo_task_def)
  have apart: "\<not> below ''/data/data/3'' (demo_task_dirname (task_id (demo_task 1 40)))"
    by (simp add: i1 demo_task_dirname_1 below_def startswith_def)
  have there: "''/data/data/3'' \<in> dirs ?shared" and row: "3 \<in> data_rows ?shared"
    by (simp_all add: demo_database_def)
  note shared = perform_destroy_removes
      [of demo_task_dirname "demo_task 1 40" demo_data_dirname 200 "?shared"]
  note alone = perform_destroy_removes
      [of demo_task_dirname "demo_task 1 40" demo_data_dirname 200 "?alone"]
  from shared have a: "''/data/tasks/1'' \<notin> dirs (perform_destroy demo_task_dirname
      demo_data_dirname 200 ?shared (demo_task 1 40))"
    by (simp add: i1 demo_task_dirname_1)
  from shared d1 other apart there row
  have b: "''/data/data/3'' \<in> dirs (perform_destroy demo_task_dirname
      demo_data_dirname 200 ?shared (demo_task 1 40))
    \<and> 3 \<in> data_rows (perform_destroy demo_task_dirname
      demo_data_dirname 200 ?shared (demo_task 1 40))"
    by blast
  from alone d1 none
  have c: "demo_data_dirname 3 \<notin> dirs (perform_destroy demo_task_dirname
      demo_data_dirname 200 ?alone (demo_task 1 40))
    \<and> 3 \<notin> data_rows (perform_destroy demo_task_dirname
      demo_data_dirname 200 ?alone (demo_task 1 40))"
    by blast
  from a b c show ?thesis
    by (simp add: demo_data_dirname_3)
qed

section \<open>The form of the job identifiers\<close>

text \<open>A resource and an id without a slash, followed by a slash and a non-empty operation,
  make an identifier of the form; without the operation they do not.\<close>

lemma segment_before_slash:
  "CHR ''/'' \<notin> set a \<Longrightarrow> segment (a @ CHR ''/'' # r) = a"
  by (induction a) (auto simp: segment_def)

lemma after_segment_slash:
  "CHR ''/'' \<notin> set a \<Longrightarrow> after_segment (a @ CHR ''/'' # r) = Some r"
  by (induction a) (auto simp: after_segment_def)

lemma after_segment_no_slash:
  "CHR ''/'' \<notin> set a \<Longrightarrow> after_segment a = None"
  by (induction a) (auto simp: after_segment_def)

lemma api_form:
  assumes "res \<noteq> []" "CHR ''/'' \<notin> set res" "pk \<noteq> []" "CHR ''/'' \<notin> set pk"
    and "operation \<noteq> []"
  shows "is_api_job_id (''/api/'' @ res @ CHR ''/'' # pk @ CHR ''/'' # operation)"
  using assms
  by (simp add: is_api_job_id_def startswith_def segment_before_slash after_segment_slash)

lemma api_form_no_operation:
  assumes "CHR ''/'' \<notin> set res" "CHR ''/'' \<notin> set pk"
  shows "\<not> is_api_job_id (''/api/'' @ res @ CHR ''/'' # pk)"
  using assms
  by (simp add: is_api_job_id_def startswith_def after_segment_slash after_segment_no_slash)

text \<open>The identifier of an annotation upload starts with the user's name, not with
  \<^verbatim>\<open>/api/\<close>.\<close>

theorem upload_id_not_api_form:
  "\<not> is_api_job_id (task_annotations_upload_rq_id ''admin'' ''1'')"
  by (simp add: is_api_job_id_def startswith_def task_annotations_upload_rq_id_def)

text \<open>
  C6, as the code has it. For a primary key that is non-empty and holds no slash, the
  identifiers of the project dataset import and of every export are of the form
  \<^verbatim>\<open>/api/<resource>/<id>/<operation>\<close>; the identifiers of the annotation uploads of tasks
  and jobs are the user's name and \<^verbatim>\<open>@\<close> followed by a string of that form; the identifier
  that the task status polls is \<^verbatim>\<open>/api/tasks/<id>\<close>, with no operation.
\<close>

theorem job_id_forms:
  assumes "pk \<noteq> []" and "CHR ''/'' \<notin> set pk"
  shows "is_api_job_id (project_dataset_import_rq_id pk)
     \<and> is_api_job_id (project_dataset_export_rq_id pk format_name)
     \<and> is_api_job_id (project_annotations_rq_id pk format_name)
     \<and> is_api_job_id (task_annotations_export_rq_id pk format_name)
     \<and> is_api_job_id (task_dataset_export_rq_id pk format_name)
     \<and> take (length user + 1) (task_annotations_upload_rq_id user pk) = user @ ''@''
     \<and> is_api_job_id (drop (length user + 1) (task_annotations_upload_rq_id user pk))
     \<and> take (length user + 1) (job_annotations_upload_rq_id user pk) = user @ ''@''
     \<and> is_api_job_id (drop (length user + 1) (job_annotations_upload_rq_id user pk))
     \<and> task_status_rq_id pk = ''/api/tasks/'' @ pk
     \<and> \<not> is_api_job_id (task_status_rq_id pk)"
proof -
  have 1: "is_api_job_id (project_dataset_import_rq_id pk)"
    using api_form [of "''project''" pk "''dataset_import''"] assms
    by (simp add: project_dataset_import_rq_id_def)
  have 2: "is_api_job_id (project_dataset_export_rq_id pk format_name)"
    using api_form [of "''project''" pk "''dataset/'' @ format_name"] assms
    by (simp add: project_dataset_export_rq_id_def)
  have 3: "is_api_job_id (project_annotations_rq_id pk format_name)"
    using api_form [of "''projects''" pk "''annotations/'' @ format_name"] assms
    by (simp add: project_annotations_rq_id_def)
  have 4: "is_api_job_id (task_annotations_export_rq_id pk format_name)"
    using api_form [of "''tasks''" pk "''annotations/'' @ format_name"] assms
    by (simp add: task_annotations_export_rq_id_def)
  have 5: "is_api_job_id (task_dataset_export_rq_id pk format_name)"
    using api_form [of "''tasks''" pk "''dataset/'' @ format_name"] assms
    by (simp add: task_dataset_export_rq_id_def)
  have 6: "take (length user + 1) (task_annotations_upload_rq_id user pk) = user @ ''@''"
    by (simp add: task_annotations_upload_rq_id_def)
  have 7: "is_api_job_id (drop (length user + 1) (task_annotations_upload_rq_id user pk))"
    using api_form [of "''tasks''" pk "''annotations/upload''"] assms
    by (simp add: task_annotations_upload_rq_id_def)
  have 8: "take (length user + 1) (job_annotations_upload_rq_id user pk) = user @ ''@''"
    by (simp add: job_annotations_upload_rq_id_def)
  have 9: "is_api_job_id (drop (length user + 1) (job_annotations_upload_rq_id user pk))"
    using api_form [of "''jobs''" pk "''annotations/upload''"] assms
    by (simp add: job_annotations_upload_rq_id_def)
  have 10: "\<not> is_api_job_id (task_status_rq_id pk)"
    using api_form_no_operation [of "''tasks''" pk] assms
    by (simp add: task_status_rq_id_def)
  from 1 2 3 4 5 6 7 8 9 10 show ?thesis
    by (simp add: task_status_rq_id_def)
qed

theorem job_id_forms_witness:
  "is_api_job_id ''/api/project/7/dataset_import''
   \<and> is_api_job_id ''/api/tasks/1/annotations/CVAT 1.1''
   \<and> is_api_job_id (drop 6 ''admin@/api/jobs/4/annotations/upload'')
   \<and> \<not> is_api_job_id ''/api/tasks/1''"
  using job_id_forms [of "''7''" "''CVAT 1.1''" "''admin''"]
    job_id_forms [of "''1''" "''CVAT 1.1''" "''admin''"]
    job_id_forms [of "''4''" "''CVAT 1.1''" "''admin''"]
  by (simp add: project_dataset_import_rq_id_def task_annotations_export_rq_id_def
        job_annotations_upload_rq_id_def task_status_rq_id_def)

section \<open>Serving frames and chunks\<close>

text \<open>A context image may be requested without a number: the getter is built, and serving
  it compares \<^verbatim>\<open>None\<close> with the frames and raises \<^verbatim>\<open>TypeError\<close>. Without data the request
  for a frame out of range raises \<^verbatim>\<open>NotFound\<close>.\<close>

theorem context_image_without_number:
  "data_chunk_getter_init demo_frames (Some ''context_image'') None ''compressed'' ''2d''
     = Inr (demo_getter ''context_image'' None)
   \<and> data_chunk_getter_call demo_frames (demo_getter ''context_image'' None) 0 10
       (Some demo_data) = Inl TypeError
   \<and> data_chunk_getter_call demo_frames (demo_getter ''frame'' (Some 99)) 0 10 None
     = Inl (NotFound ''Cannot find requested data'')"
  by (simp add: data_chunk_getter_init_def data_chunk_getter_call_def demo_getter_def
        truthy_def)

text \<open>
  C9, as the code has it. Building a getter of type \<^verbatim>\<open>chunk\<close> or \<^verbatim>\<open>frame\<close> raises
  \<^verbatim>\<open>ValidationError\<close> exactly when no number is given or the quality is neither
  \<^verbatim>\<open>compressed\<close> nor \<^verbatim>\<open>original\<close>. Serving without data raises \<^verbatim>\<open>NotFound\<close>. Serving with
  data, a \<^verbatim>\<open>frame\<close> or \<^verbatim>\<open>context_image\<close> getter that carries a number raises
  \<^verbatim>\<open>ValidationError\<close> exactly when the number is outside \<^verbatim>\<open>start..stop\<close>, and a \<^verbatim>\<open>chunk\<close>
  getter exactly when its number is outside the chunk numbers of \<^verbatim>\<open>start\<close> and \<^verbatim>\<open>stop\<close>.
  Whatever such a getter returns without raising, its number is in the range.
\<close>

theorem data_range_checked:
  "((ty = ''chunk'' \<or> ty = ''frame'') \<longrightarrow>
      ((\<exists>msg. data_chunk_getter_init F (Some ty) data_num data_quality task_dim
                = Inl (ValidationError msg))
       \<longleftrightarrow> \<not> (truthy data_num
               \<and> (data_quality = ''compressed'' \<or> data_quality = ''original''))))
   \<and> data_chunk_getter_call F g start stop None = Inl (NotFound ''Cannot find requested data'')
   \<and> (\<forall>n. (getter_type g = ''frame'' \<or> getter_type g = ''context_image'')
           \<and> getter_number g = Some n \<longrightarrow>
         ((\<exists>msg. data_chunk_getter_call F g start stop (Some d) = Inl (ValidationError msg))
          \<longleftrightarrow> \<not> (start \<le> n \<and> n \<le> stop)))
   \<and> (\<forall>n. getter_type g = ''chunk'' \<and> getter_number g = Some n \<longrightarrow>
         ((\<exists>msg. data_chunk_getter_call F g start stop (Some d) = Inl (ValidationError msg))
          \<longleftrightarrow> \<not> (get_chunk_number F start \<le> n \<and> n \<le> get_chunk_number F stop)))
   \<and> (\<forall>r. (getter_type g = ''frame'' \<or> getter_type g = ''context_image'')
           \<and> data_chunk_getter_call F g start stop db_data = Inr r \<longrightarrow>
         (\<exists>n. getter_number g = Some n \<and> start \<le> n \<and> n \<le> stop))
   \<and> (\<forall>r. getter_type g = ''chunk''
           \<and> data_chunk_getter_call F g start stop db_data = Inr r \<longrightarrow>
         (\<exists>n. getter_number g = Some n
              \<and> get_chunk_number F start \<le> n \<and> n \<le> get_chunk_number F stop))"
proof -
  have init: "(\<exists>msg. data_chunk_getter_init F (Some ty) data_num data_quality task_dim
                = Inl (ValidationError msg))
       \<longleftrightarrow> \<not> (truthy data_num
               \<and> (data_quality = ''compressed'' \<or> data_quality = ''original''))"
    if "ty = ''chunk'' \<or> ty = ''frame''"
    using that
    by (auto simp: data_chunk_getter_init_def truthy_def Let_def split: option.splits)
  have absent: "data_chunk_getter_call F g start stop None
                  = Inl (NotFound ''Cannot find requested data'')"
    by (simp add: data_chunk_getter_call_def)
  have frame: "(\<exists>msg. data_chunk_getter_call F g start stop (Some d)
                        = Inl (ValidationError msg))
          \<longleftrightarrow> \<not> (start \<le> n \<and> n \<le> stop)"
    if "getter_type g = ''frame'' \<or> getter_type g = ''context_image''"
      and "getter_number g = Some n" for n
    using that
    by (auto simp: data_chunk_getter_call_def split: option.splits list.splits)
  have chunk: "(\<exists>msg. data_chunk_getter_call F g start stop (Some d)
                        = Inl (ValidationError msg))
          \<longleftrightarrow> \<not> (get_chunk_number F start \<le> n \<and> n \<le> get_chunk_number F stop)"
    if "getter_type g = ''chunk''" and "getter_number g = Some n" for n
    using that
    by (auto simp: data_chunk_getter_call_def Let_def)
  have served: "\<exists>n. getter_number g = Some n \<and> start \<le> n \<and> n \<le> stop"
    if "getter_type g = ''frame'' \<or> getter_type g = ''context_image''"
      and "data_chunk_getter_call F g start stop db_data = Inr r" for r
    using that
    by (auto simp: data_chunk_getter_call_def split: option.splits if_splits)
  have served_chunk:
    "\<exists>n. getter_number g = Some n
          \<and> get_chunk_number F start \<le> n \<and> n \<le> get_chunk_number F stop"
    if "getter_type g = ''chunk''"
      and "data_chunk_getter_call F g start stop db_data = Inr r" for r
    using that
    by (auto simp: data_chunk_getter_call_def Let_def split: option.splits if_splits)
  show ?thesis
    using init absent frame chunk served served_chunk by blast
qed

lemma range_text_0_10: "range_text 0 10 = ''[0, 10] range''"
  by code_simp

theorem data_range_checked_witness:
  "data_chunk_getter_init demo_frames (Some ''frame'') (Some ''5'') ''jpeg'' ''2d''
     = Inl (ValidationError ''Wrong quality value'')
   \<and> data_chunk_getter_init demo_frames (Some ''chunk'') (Some ''5'') ''original'' ''2d''
     = Inr \<lparr>getter_type = ''chunk'', getter_number = Some 5, getter_quality = ORIGINAL,
            getter_dimension = ''2d''\<rparr>
   \<and> data_chunk_getter_call demo_frames (demo_getter ''frame'' (Some 99)) 0 10
       (Some demo_data)
     = Inl (ValidationError ''The frame number should be in [0, 10] range'')
   \<and> data_chunk_getter_call demo_frames (demo_getter ''frame'' (Some 5)) 0 10
       (Some demo_data)
     = Inr (FrameBuffer 5 COMPRESSED)
   \<and> data_chunk_getter_call demo_frames (demo_getter ''context_image'' (Some 5)) 0 10
       (Some demo_data)
     = Inr (ContextImage ''/data/data/3/related/5.png'')
   \<and> data_chunk_getter_call demo_frames (demo_getter ''chunk'' (Some 2)) 0 100
       (Some demo_data)
     = Inr (ChunkBuffer 2 COMPRESSED)
   \<and> (\<exists>msg. data_chunk_getter_call demo_frames (demo_getter ''chunk'' (Some 5)) 0 100
               (Some demo_data) = Inl (ValidationError msg))"
proof -
  have q: "\<not> (truthy (Some ''5'') \<and> (''jpeg'' = ''compressed'' \<or> ''jpeg'' = ''original''))"
    by simp
  have ty: "''frame'' = ''chunk'' \<or> ''frame'' = ''frame''"
    by simp
  from data_range_checked [where F = demo_frames and ty = "''frame''"
      and data_num = "Some ''5''" and data_quality = "''jpeg''" and task_dim = "''2d''",
      THEN conjunct1, THEN mp, OF ty] q
  have "\<exists>msg. data_chunk_getter_init demo_frames (Some ''frame'') (Some ''5'') ''jpeg'' ''2d''
                = Inl (ValidationError msg)"
    by blast
  then have 1: "data_chunk_getter_init demo_frames (Some ''frame'') (Some ''5'') ''jpeg'' ''2d''
     = Inl (ValidationError ''Wrong quality value'')"
    by (simp add: data_chunk_getter_init_def truthy_def)
  have 2: "data_chunk_getter_init demo_frames (Some ''chunk'') (Some ''5'') ''original'' ''2d''
     = Inr \<lparr>getter_type = ''chunk'', getter_number = Some 5, getter_quality = ORIGINAL,
            getter_dimension = ''2d''\<rparr>"
    by (simp add: data_chunk_getter_init_def truthy_def demo_frames_def)
  have 3: "data_chunk_getter_call demo_frames (demo_getter ''frame'' (Some 99)) 0 10
       (Some demo_data)
     = Inl (ValidationError ''The frame number should be in [0, 10] range'')"
    by (simp add: data_chunk_getter_call_def demo_getter_def range_text_0_10)
  have 4: "data_chunk_getter_call demo_frames (demo_getter ''frame'' (Some 5)) 0 10
       (Some demo_data) = Inr (FrameBuffer 5 COMPRESSED)"
    by (simp add: data_chunk_getter_call_def demo_getter_def)
  have 5: "data_chunk_getter_call demo_frames (demo_getter ''context_image'' (Some 5)) 0 10
       (Some demo_data) = Inr (ContextImage ''/data/data/3/related/5.png'')"
    by (simp add: data_chunk_getter_call_def demo_getter_def demo_frames_def)
  have 6: "data_chunk_getter_call demo_frames (demo_getter ''chunk'' (Some 2)) 0 100
       (Some demo_data) = Inr (ChunkBuffer 2 COMPRESSED)"
    by (simp add: data_chunk_getter_call_def demo_getter_def demo_frames_def demo_data_def)
  have c: "getter_type (demo_getter ''chunk'' (Some 5)) = ''chunk''
             \<and> getter_number (demo_getter ''chunk'' (Some 5)) = Some 5"
    by (simp add: demo_getter_def)
  have out: "\<not> (get_chunk_number demo_frames 0 \<le> 5 \<and> 5 \<le> get_chunk_number demo_frames 100)"
    by (simp add: demo_frames_def)
  from data_range_checked [where F = demo_frames and g = "demo_getter ''chunk'' (Some 5)"
      and start = 0 and stop = 100 and d = demo_data,
      THEN conjunct2, THEN conjunct2, THEN conjunct2, THEN conjunct1, THEN spec, of 5,
      THEN mp, OF c] out
  have 7: "\<exists>msg. data_chunk_getter_call demo_frames (demo_getter ''chunk'' (Some 5)) 0 100
               (Some demo_data) = Inl (ValidationError msg)"
    by blast
  from 1 2 3 4 5 6 7 show ?thesis
    by blast
qed

section \<open>Browsing the share\<close>

text \<open>The directory next to the share whose name continues the name of the share: its
  normalised path starts with the text of \<^verbatim>\<open>SHARE_ROOT\<close> and is not under it.\<close>

lemma demo_sibling_path:
  "abspath ''/home/django'' (path_join ''/home/django/share'' ''../share_backup'')
     = ''/home/django/share_backup''"
  by code_simp

lemma demo_sibling_prefix: "startswith ''/home/django/share_backup'' ''/home/django/share''"
  by code_simp

lemma demo_sibling_outside: "\<not> under_root ''/home/django/share'' ''/home/django/share_backup''"
  by code_simp

text \<open>
  C8. With \<^verbatim>\<open>SHARE_ROOT = /home/django/share\<close> and the parameter \<^verbatim>\<open>../share_backup\<close>, the
  normalised path is \<^verbatim>\<open>/home/django/share_backup\<close>, which is outside the share; the
  endpoint compares texts with \<^verbatim>\<open>startswith\<close>, accepts the path and lists the directory.
\<close>

theorem share_lists_sibling_of_root:
  "share ''/home/django/share'' ''/home/django'' demo_tree (\<lambda>_. True)
       (Some ''../share_backup'')
     = Inr (Response 200 (Listing [(''secrets.txt'', ''REG''), (''old'', ''DIR'')]))
   \<and> abspath ''/home/django'' (path_join ''/home/django/share'' ''../share_backup'')
     = ''/home/django/share_backup''
   \<and> \<not> under_root ''/home/django/share'' ''/home/django/share_backup''"
proof -
  have p: "startswith ''../share_backup'' ''/'' = False"
    by (simp add: startswith_def)
  have d: "isdir demo_tree ''/home/django/share_backup''"
    by (simp add: isdir_def demo_tree_def)
  have l: "List.map_filter file_info (scandir demo_tree ''/home/django/share_backup'')
             = [(''secrets.txt'', ''REG''), (''old'', ''DIR'')]"
    by (simp add: scandir_def demo_tree_def List.map_filter_def file_info_def)
  show ?thesis
    by (simp add: share_def p demo_sibling_path demo_sibling_prefix d l demo_sibling_outside)
qed

end
